theory Spec2Isabelle
  imports Main "HOL-Library.Word"
begin

unbundle bit_operations_syntax

section \<open>Exception dispatching and frame unwinding (base/ntos/rtl/i386/exdsptch.c)\<close>

subsection \<open>Data\<close>

text \<open>
  \<open>ULONG\<close>, \<open>PVOID\<close> and every pointer type of the module are 32-bit values: the code casts
  freely between them. Pointer comparisons are unsigned comparisons of the addresses.
\<close>

type_synonym ULONG = "32 word"

text \<open>
  \<open>LONG\<close> is a signed 32-bit integer. Its values are kept as \<open>int\<close>, and every result of
  an arithmetic operation is brought back into range by \<open>LONG\<close>, the two's complement
  wrap-around.
\<close>

definition LONG :: "int \<Rightarrow> int" where
  "LONG x = (x + 2 ^ 31) mod 2 ^ 32 - 2 ^ 31"

text \<open>
  The enumeration \<open>EXCEPTION_DISPOSITION\<close>. A C enumeration can hold any integer, and both
  \<open>switch\<close> statements of the module have a \<open>default\<close> branch for such values.
\<close>

datatype EXCEPTION_DISPOSITION =
    ExceptionContinueExecution
  | ExceptionContinueSearch
  | ExceptionNestedException
  | ExceptionCollidedUnwind
  | ExceptionOtherDisposition ULONG

text \<open>
  \<open>struct _EXCEPTION_RECORD\<close>. The field \<open>ExceptionRecord\<close> points to an inner record
  (\<open>None\<close> is \<open>NULL\<close>). \<open>ExceptionAddress\<close> is \<open>None\<close> in a record built by this module
  that never writes the field.
\<close>

datatype EXCEPTION_RECORD = EXCEPTION_RECORD
  (ExceptionCode: ULONG)
  (ExceptionFlags: ULONG)
  (ExceptionRecord: "EXCEPTION_RECORD option")
  (ExceptionAddress: "ULONG option")
  (NumberParameters: ULONG)

definition ExceptionFlags_update :: "(ULONG \<Rightarrow> ULONG) \<Rightarrow> EXCEPTION_RECORD \<Rightarrow> EXCEPTION_RECORD" where
  "ExceptionFlags_update f r =
     EXCEPTION_RECORD (ExceptionCode r) (f (ExceptionFlags r)) (ExceptionRecord r)
       (ExceptionAddress r) (NumberParameters r)"

text \<open>
  \<open>struct _CONTEXT\<close>: the fields this module writes, and the rest of the captured
  registers as an opaque list.
\<close>

record CONTEXT =
  ContextFlags :: ULONG
  Eax :: ULONG
  Esp :: ULONG
  Registers :: "ULONG list"

record EXCEPTION_REGISTRATION_RECORD =
  Next :: ULONG
  Handler :: ULONG

text \<open>The two fields of the processor control block that the module reads.\<close>

record KPRCB =
  DpcRoutineActive :: bool
  DpcStack :: ULONG

text \<open>One entry of the exception log: what the two logging calls are given.\<close>

datatype LOG_ENTRY =
    LogExceptionHandler EXCEPTION_RECORD CONTEXT ULONG ULONG ULONG
  | LogLastExceptionDisposition ULONG EXCEPTION_DISPOSITION

text \<open>
  The state outside the locals of the running routine: everything a handler can reach
  through the pointers it is given, and what the routines read through collaborators.
  \<^item> \<open>ExceptionRecord'\<close> and \<open>ContextRecord'\<close> are the records the parameters
    \<open>ExceptionRecord\<close> and \<open>ContextRecord\<close> point to;
  \<^item> \<open>DispatcherContext_RegistrationPointer\<close> is \<open>DispatcherContext.RegistrationPointer\<close>,
    the one field of the local structure whose address is handed to each handler;
  \<^item> \<open>Registration\<close> is the memory read as registration records,
    \<open>Memory\<close> the memory read as \<open>ULONG\<close>s, both by address;
  \<^item> the remaining fields are what the collaborator of the same name returns.
\<close>

record machine =
  ExceptionRecord' :: EXCEPTION_RECORD
  ContextRecord' :: CONTEXT
  DispatcherContext_RegistrationPointer :: ULONG
  Registration :: "ULONG \<Rightarrow> EXCEPTION_REGISTRATION_RECORD"
  Memory :: "ULONG \<Rightarrow> ULONG"
  RtlLookupFunctionTable :: "ULONG \<Rightarrow> ULONG \<times> ULONG \<times> ULONG"
  RtlpGetStackLimits :: "ULONG \<times> ULONG"
  RtlpGetRegistrationHead :: ULONG
  KeGetCurrentIrql :: "8 word"
  KeGetCurrentPrcb :: KPRCB
  NtGlobalFlag :: ULONG
  RtlpExceptionLog :: "LOG_ENTRY list"

text \<open>
  The header \<open>ntrtlp.h\<close> and the assembler routines are not part of the sources. Their
  constants and routines are parameters of the model, collected in one record:
  \<^item> the flag masks, status codes, sentinel and sizes, as \<open>ULONG\<close>s;
  \<^item> the two trampolines: given the establisher frame and the handler address they
    run the handler on the state and give back its disposition and the new state, or
    \<open>None\<close> when the handler never returns to its caller;
  \<^item> \<open>RtlpUnlinkHandler\<close> and \<open>RtlpCaptureContext\<close>, as state transformers.
\<close>

record ntrtlp =
  EXCEPTION_NONCONTINUABLE :: ULONG
  EXCEPTION_UNWINDING :: ULONG
  EXCEPTION_EXIT_UNWIND :: ULONG
  EXCEPTION_STACK_INVALID :: ULONG
  EXCEPTION_NESTED_CALL :: ULONG
  EXCEPTION_CHAIN_END :: ULONG
  STATUS_NONCONTINUABLE_EXCEPTION :: ULONG
  STATUS_INVALID_DISPOSITION :: ULONG
  STATUS_UNWIND :: ULONG
  STATUS_BAD_STACK :: ULONG
  STATUS_INVALID_UNWIND_TARGET :: ULONG
  DISPATCH_LEVEL :: "8 word"
  KERNEL_STACK_SIZE :: ULONG
  FLG_ENABLE_EXCEPTION_LOGGING :: ULONG
  CONTEXT_INTEGER :: ULONG
  CONTEXT_CONTROL :: ULONG
  CONTEXT_SEGMENTS :: ULONG
  sizeof_EXCEPTION_REGISTRATION_RECORD :: ULONG
  RtlpExecuteHandlerForException ::
    "ULONG \<Rightarrow> ULONG \<Rightarrow> machine \<Rightarrow> (EXCEPTION_DISPOSITION \<times> machine) option"
  RtlpExecuteHandlerForUnwind ::
    "ULONG \<Rightarrow> ULONG \<Rightarrow> machine \<Rightarrow> (EXCEPTION_DISPOSITION \<times> machine) option"
  RtlpUnlinkHandler :: "ULONG \<Rightarrow> machine \<Rightarrow> machine"
  RtlpCaptureContext :: "CONTEXT \<Rightarrow> machine \<Rightarrow> CONTEXT"

text \<open>
  How control leaves a routine: a \<open>return\<close> of the dispatcher with its \<open>Completion\<close>, or
  one of three calls. The spec (section 6) gives \<open>Continue\<close> as not returning and the
  raise primitives as re-entering the fault path, and section 4.6 has the unwind not
  return after the raise system call; every record this module hands to
  \<open>RtlRaiseException\<close> is noncontinuable, so execution cannot resume behind the call.
  In the model each of the three calls therefore ends the routine: the code that
  follows such a call in the source (a fall through into the next \<open>case\<close>, a \<open>break\<close>,
  the final \<open>return\<close>) is not reached.
\<close>

datatype control =
    Return bool
  | RtlRaiseException EXCEPTION_RECORD
  | ZwContinue CONTEXT bool
  | ZwRaiseException EXCEPTION_RECORD CONTEXT bool

text \<open>One pass through a loop body: go round again, or leave the routine.\<close>

datatype 's iteration = Iterate 's | Exit control 's

subsection \<open>RtlIsValidHandler\<close>

text \<open>
  The \<open>while\<close> loop of lines 104 to 115. \<open>Low\<close>, \<open>High\<close> and \<open>Middle\<close> are \<open>LONG\<close>s;
  \<open>>> 1\<close> on a \<open>LONG\<close> is the arithmetic shift, which is \<open>div 2\<close> on \<open>int\<close>;
  \<open>FunctionTable[Middle]\<close> reads the \<open>ULONG\<close> at \<open>FunctionTable + 4 * Middle\<close>. The loop
  is not known to end for every input, so it is a partial function: \<open>None\<close> is a loop
  that runs forever.
\<close>

partial_function (option) RtlIsValidHandler_while ::
  "(ULONG \<Rightarrow> ULONG) \<Rightarrow> ULONG \<Rightarrow> ULONG \<Rightarrow> int \<Rightarrow> int \<Rightarrow> bool option" where
  "RtlIsValidHandler_while Mem FunctionTable Handler' Low High =
     (if High \<ge> Low then
        (let Middle = LONG (Low + High) div 2;
             FunctionEntry = Mem (FunctionTable + 4 * word_of_int Middle)
         in if Handler' < FunctionEntry then
              RtlIsValidHandler_while Mem FunctionTable Handler' Low (LONG (Middle - 1))
            else if Handler' > FunctionEntry then
              RtlIsValidHandler_while Mem FunctionTable Handler' (LONG (Middle + 1)) High
            else Some True)
      else Some False)"

declare RtlIsValidHandler_while.simps [code]

text \<open>
  Lines 77 to 124. \<open>RtlInvalidHandlerDetected\<close> has an empty body (lines 66 to 74), so
  its two calls leave no trace. \<open>High = FunctionTableLength\<close> converts a \<open>ULONG\<close> to a
  \<open>LONG\<close>, which is \<open>sint\<close>.
\<close>

definition RtlIsValidHandler :: "machine \<Rightarrow> ULONG \<Rightarrow> bool option" where
  "RtlIsValidHandler m Handler' =
     (case RtlLookupFunctionTable m Handler' of (FunctionTable, Base, FunctionTableLength) \<Rightarrow>
        if FunctionTable \<noteq> 0 \<and> FunctionTableLength \<noteq> 0 then
          if FunctionTable = - 1 \<and> FunctionTableLength = - 1 then Some False
          else RtlIsValidHandler_while (Memory m) FunctionTable (Handler' - Base) 0
                 (sint FunctionTableLength)
        else Some True)"

text \<open>
  The function table \<open>T\<close> lies in memory at \<open>FunctionTable\<close>: entry \<open>i\<close> is the \<open>ULONG\<close> at
  \<open>FunctionTable + 4 * i\<close>.
\<close>

definition table_at :: "(ULONG \<Rightarrow> ULONG) \<Rightarrow> ULONG \<Rightarrow> ULONG list \<Rightarrow> bool" where
  "table_at Mem FunctionTable T =
     (\<forall>i < length T. Mem (FunctionTable + 4 * of_nat i) = T ! i)"

subsection \<open>The stack limits of a frame\<close>

text \<open>
  The locals both walks share, and the locals of the dispatcher. \<open>Index\<close> is written only
  when logging is enabled.
\<close>

record walk =
  RegistrationPointer :: ULONG
  HighLimit :: ULONG
  LowLimit :: ULONG

record dispatch_locals = walk +
  NestedRegistration :: ULONG
  Index :: ULONG

definition HighAddress :: "ntrtlp \<Rightarrow> ULONG \<Rightarrow> ULONG" where
  "HighAddress k RegistrationPointer' =
     RegistrationPointer' + sizeof_EXCEPTION_REGISTRATION_RECORD k"

text \<open>The test of lines 196 to 198, and again of lines 535 to 537.\<close>

definition frame_out_of_limits :: "ntrtlp \<Rightarrow> 'a walk_scheme \<Rightarrow> bool" where
  "frame_out_of_limits k l =
     (RegistrationPointer l < LowLimit l \<or>
      HighAddress k (RegistrationPointer l) > HighLimit l \<or>
      RegistrationPointer l AND 3 \<noteq> 0)"

text \<open>The two nested tests of lines 208 to 216, and again of lines 547 to 555.\<close>

definition frame_on_dpc_stack :: "ntrtlp \<Rightarrow> 'a walk_scheme \<Rightarrow> machine \<Rightarrow> bool" where
  "frame_on_dpc_stack k l m =
     (let TestAddress = RegistrationPointer l in
        (TestAddress AND 3 = 0 \<and> KeGetCurrentIrql m \<ge> DISPATCH_LEVEL k) \<and>
        (let Prcb = KeGetCurrentPrcb m; DpcStack' = DpcStack Prcb in
           DpcRoutineActive Prcb \<and>
           HighAddress k (RegistrationPointer l) \<le> DpcStack' \<and>
           TestAddress \<ge> DpcStack' - KERNEL_STACK_SIZE k))"

text \<open>Lines 224 and 225, and again lines 563 and 564.\<close>

definition switch_to_dpc_stack :: "ntrtlp \<Rightarrow> 'a walk_scheme \<Rightarrow> machine \<Rightarrow> 'a walk_scheme" where
  "switch_to_dpc_stack k l m =
     (let DpcStack' = DpcStack (KeGetCurrentPrcb m) in
        l\<lparr>HighLimit := DpcStack', LowLimit := DpcStack' - KERNEL_STACK_SIZE k\<rparr>)"

subsection \<open>RtlDispatchException\<close>

text \<open>\<open>ExceptionRecord->ExceptionFlags |= EXCEPTION_STACK_INVALID\<close> (lines 230 and 237).\<close>

definition set_stack_invalid :: "ntrtlp \<Rightarrow> machine \<Rightarrow> machine" where
  "set_stack_invalid k m =
     m\<lparr>ExceptionRecord' :=
         ExceptionFlags_update (\<lambda>f. f OR EXCEPTION_STACK_INVALID k) (ExceptionRecord' m)\<rparr>"

text \<open>
  Modelled from the spec: the two logging routines are not part of the sources. Section
  4.7 gives a call before the handler that produces an index from the exception record,
  the context record, a bias word, a pointer to a prefix of the chain node and the length
  of the prefix, and a call after it with the index and the disposition. Here each call
  appends what it is given to the log, and the index is the position of the new entry.
  Lines 248 to 257 and 266 to 268.
\<close>

definition log_handler :: "ntrtlp \<Rightarrow> dispatch_locals \<Rightarrow> machine \<Rightarrow> dispatch_locals \<times> machine" where
  "log_handler k l m =
     (if NtGlobalFlag m AND FLG_ENABLE_EXCEPTION_LOGGING k \<noteq> 0 then
        (l\<lparr>Index := of_nat (length (RtlpExceptionLog m))\<rparr>,
         m\<lparr>RtlpExceptionLog := RtlpExceptionLog m @
             [LogExceptionHandler (ExceptionRecord' m) (ContextRecord' m) 0
                (RegistrationPointer l) (4 * 4)]\<rparr>)
      else (l, m))"

definition log_disposition ::
  "ntrtlp \<Rightarrow> EXCEPTION_DISPOSITION \<Rightarrow> dispatch_locals \<Rightarrow> machine \<Rightarrow> machine" where
  "log_disposition k Disposition l m =
     (if NtGlobalFlag m AND FLG_ENABLE_EXCEPTION_LOGGING k \<noteq> 0 then
        m\<lparr>RtlpExceptionLog := RtlpExceptionLog m @
            [LogLastExceptionDisposition (Index l) Disposition]\<rparr>
      else m)"

text \<open>Lines 277 to 280: the end of a nested context.\<close>

definition end_nested_context ::
  "ntrtlp \<Rightarrow> dispatch_locals \<Rightarrow> machine \<Rightarrow> dispatch_locals \<times> machine" where
  "end_nested_context k l m =
     (if NestedRegistration l = RegistrationPointer l then
        (l\<lparr>NestedRegistration := 0\<rparr>,
         m\<lparr>ExceptionRecord' :=
             ExceptionFlags_update (\<lambda>f. f AND NOT (EXCEPTION_NESTED_CALL k)) (ExceptionRecord' m)\<rparr>)
      else (l, m))"

text \<open>Line 354: \<open>RegistrationPointer = RegistrationPointer->Next\<close>.\<close>

definition next_registration :: "'a walk_scheme \<Rightarrow> machine \<Rightarrow> 'a walk_scheme" where
  "next_registration l m =
     l\<lparr>RegistrationPointer := Next (Registration m (RegistrationPointer l))\<rparr>"

text \<open>
  The \<open>switch\<close> of lines 286 to 347, followed by line 354 on the branches that \<open>break\<close>.
\<close>

definition RtlDispatchException_switch ::
  "ntrtlp \<Rightarrow> EXCEPTION_DISPOSITION \<Rightarrow> dispatch_locals \<Rightarrow> machine \<Rightarrow>
   (dispatch_locals \<times> machine) iteration" where
  "RtlDispatchException_switch k Disposition l m =
     (case Disposition of
        ExceptionContinueExecution \<Rightarrow>
          if ExceptionFlags (ExceptionRecord' m) AND EXCEPTION_NONCONTINUABLE k \<noteq> 0 then
            Exit (RtlRaiseException
                    (EXCEPTION_RECORD (STATUS_NONCONTINUABLE_EXCEPTION k)
                       (EXCEPTION_NONCONTINUABLE k) (Some (ExceptionRecord' m)) None 0))
                 (l, m)
          else Exit (Return True) (l, m)
      | ExceptionContinueSearch \<Rightarrow>
          if ExceptionFlags (ExceptionRecord' m) AND EXCEPTION_STACK_INVALID k \<noteq> 0 then
            Exit (Return False) (l, m)
          else Iterate (next_registration l m, m)
      | ExceptionNestedException \<Rightarrow>
          (let m' = m\<lparr>ExceptionRecord' :=
                       ExceptionFlags_update (\<lambda>f. f OR EXCEPTION_NESTED_CALL k)
                         (ExceptionRecord' m)\<rparr>;
               l' = (if DispatcherContext_RegistrationPointer m' > NestedRegistration l
                     then l\<lparr>NestedRegistration := DispatcherContext_RegistrationPointer m'\<rparr>
                     else l)
           in Iterate (next_registration l' m', m'))
      | _ \<Rightarrow>
          Exit (RtlRaiseException
                  (EXCEPTION_RECORD (STATUS_INVALID_DISPOSITION k)
                     (EXCEPTION_NONCONTINUABLE k) (Some (ExceptionRecord' m)) None 0))
               (l, m))"

text \<open>
  One pass through the body of the \<open>while\<close> loop, lines 186 to 354. \<open>None\<close>: the
  validator or the handler never comes back.
\<close>

definition RtlDispatchException_body ::
  "ntrtlp \<Rightarrow> dispatch_locals \<Rightarrow> machine \<Rightarrow> (dispatch_locals \<times> machine) iteration option" where
  "RtlDispatchException_body k l m =
     (if frame_out_of_limits k l then
        (if frame_on_dpc_stack k l m then Some (Iterate (switch_to_dpc_stack k l m, m))
         else Some (Exit (Return False) (l, set_stack_invalid k m)))
      else
        (case RtlIsValidHandler m (Handler (Registration m (RegistrationPointer l))) of
           None \<Rightarrow> None
         | Some False \<Rightarrow> Some (Exit (Return False) (l, set_stack_invalid k m))
         | Some True \<Rightarrow>
             (case log_handler k l m of (l1, m1) \<Rightarrow>
                (case RtlpExecuteHandlerForException k (RegistrationPointer l1)
                        (Handler (Registration m1 (RegistrationPointer l1))) m1 of
                   None \<Rightarrow> None
                 | Some (Disposition, m2) \<Rightarrow>
                     (case end_nested_context k l1 (log_disposition k Disposition l1 m2) of
                        (l3, m3) \<Rightarrow> Some (RtlDispatchException_switch k Disposition l3 m3))))))"

text \<open>
  The \<open>while\<close> loop of line 184 and the \<open>return Completion\<close> it falls into: \<open>Completion\<close>
  is \<open>FALSE\<close> when the chain is exhausted. The result carries the locals and the state
  at the moment of the return.
\<close>

partial_function (option) RtlDispatchException_while ::
  "ntrtlp \<Rightarrow> dispatch_locals \<Rightarrow> machine \<Rightarrow> (control \<times> dispatch_locals \<times> machine) option" where
  "RtlDispatchException_while k l m =
     (if RegistrationPointer l \<noteq> EXCEPTION_CHAIN_END k then
        (case RtlDispatchException_body k l m of
           None \<Rightarrow> None
         | Some (Iterate (l', m')) \<Rightarrow> RtlDispatchException_while k l' m'
         | Some (Exit c s) \<Rightarrow> Some (c, s))
      else Some (Return False, l, m))"

declare RtlDispatchException_while.simps [code]

text \<open>
  Lines 173 to 182: the locals at the first test of the loop. \<open>Index0\<close> is the content of
  the uninitialised local \<open>Index\<close>.
\<close>

definition RtlDispatchException_locals :: "ULONG \<Rightarrow> machine \<Rightarrow> dispatch_locals" where
  "RtlDispatchException_locals Index0 m =
     (case RtlpGetStackLimits m of (LowLimit', HighLimit') \<Rightarrow>
        \<lparr>RegistrationPointer = RtlpGetRegistrationHead m,
         HighLimit = HighLimit', LowLimit = LowLimit',
         NestedRegistration = 0, Index = Index0\<rparr>)"

definition RtlDispatchException :: "ntrtlp \<Rightarrow> ULONG \<Rightarrow> machine \<Rightarrow> (control \<times> machine) option" where
  "RtlDispatchException k Index0 m =
     map_option (\<lambda>(c, l, m'). (c, m'))
       (RtlDispatchException_while k (RtlDispatchException_locals Index0 m) m)"

subsection \<open>RtlUnwind\<close>

text \<open>
  Modelled from the spec: the macro \<open>ARGUMENT_PRESENT\<close> is not part of the sources. The
  spec speaks of an optional target frame that was or was not supplied; a pointer
  argument that is not supplied is \<open>NULL\<close>.
\<close>

definition ARGUMENT_PRESENT :: "ULONG \<Rightarrow> bool" where
  "ARGUMENT_PRESENT ArgumentPointer = (ArgumentPointer \<noteq> 0)"

text \<open>The record \<open>ExceptionRecord2\<close> as lines 517 to 520, 569 to 572 and 626 to 629 fill it.\<close>

definition ExceptionRecord2 :: "ntrtlp \<Rightarrow> ULONG \<Rightarrow> machine \<Rightarrow> EXCEPTION_RECORD" where
  "ExceptionRecord2 k code m =
     EXCEPTION_RECORD code (EXCEPTION_NONCONTINUABLE k) (Some (ExceptionRecord' m)) None 0"

text \<open>Lines 638 to 645: step to the next record and unlink the one left behind.\<close>

definition RtlUnwind_step :: "ntrtlp \<Rightarrow> walk \<Rightarrow> machine \<Rightarrow> (walk \<times> machine) iteration" where
  "RtlUnwind_step k l m =
     (let PriorPointer = RegistrationPointer l;
          l' = l\<lparr>RegistrationPointer := Next (Registration m (RegistrationPointer l))\<rparr>
      in Iterate (l', RtlpUnlinkHandler k PriorPointer m))"

text \<open>The \<open>switch\<close> of lines 594 to 632, followed by lines 638 to 645.\<close>

definition RtlUnwind_switch ::
  "ntrtlp \<Rightarrow> EXCEPTION_DISPOSITION \<Rightarrow> walk \<Rightarrow> machine \<Rightarrow> (walk \<times> machine) iteration" where
  "RtlUnwind_switch k Disposition l m =
     (case Disposition of
        ExceptionContinueSearch \<Rightarrow> RtlUnwind_step k l m
      | ExceptionCollidedUnwind \<Rightarrow>
          RtlUnwind_step k
            (l\<lparr>RegistrationPointer := DispatcherContext_RegistrationPointer m\<rparr>) m
      | _ \<Rightarrow>
          Exit (RtlRaiseException (ExceptionRecord2 k (STATUS_INVALID_DISPOSITION k) m)) (l, m))"

text \<open>One pass through the body of the \<open>while\<close> loop, lines 501 to 652.\<close>

definition RtlUnwind_body ::
  "ntrtlp \<Rightarrow> ULONG \<Rightarrow> walk \<Rightarrow> machine \<Rightarrow> (walk \<times> machine) iteration option" where
  "RtlUnwind_body k TargetFrame l m =
     (if RegistrationPointer l = TargetFrame then
        Some (Exit (ZwContinue (ContextRecord' m) False) (l, m))
      else if ARGUMENT_PRESENT TargetFrame \<and> TargetFrame < RegistrationPointer l then
        Some (Exit (RtlRaiseException
                      (ExceptionRecord2 k (STATUS_INVALID_UNWIND_TARGET k) m)) (l, m))
      else if frame_out_of_limits k l then
        (if frame_on_dpc_stack k l m then Some (Iterate (switch_to_dpc_stack k l m, m))
         else Some (Exit (RtlRaiseException (ExceptionRecord2 k (STATUS_BAD_STACK k) m)) (l, m)))
      else
        (case RtlpExecuteHandlerForUnwind k (RegistrationPointer l)
                (Handler (Registration m (RegistrationPointer l))) m of
           None \<Rightarrow> None
         | Some (Disposition, m1) \<Rightarrow> Some (RtlUnwind_switch k Disposition l m1)))"

text \<open>Lines 655 to 678: what follows the loop.\<close>

definition RtlUnwind_end :: "ntrtlp \<Rightarrow> ULONG \<Rightarrow> machine \<Rightarrow> control" where
  "RtlUnwind_end k TargetFrame m =
     (if TargetFrame = EXCEPTION_CHAIN_END k then ZwContinue (ContextRecord' m) False
      else ZwRaiseException (ExceptionRecord' m) (ContextRecord' m) False)"

text \<open>The \<open>while\<close> loop of line 499 and the code it falls into.\<close>

partial_function (option) RtlUnwind_while ::
  "ntrtlp \<Rightarrow> ULONG \<Rightarrow> walk \<Rightarrow> machine \<Rightarrow> (control \<times> walk \<times> machine) option" where
  "RtlUnwind_while k TargetFrame l m =
     (if RegistrationPointer l \<noteq> EXCEPTION_CHAIN_END k then
        (case RtlUnwind_body k TargetFrame l m of
           None \<Rightarrow> None
         | Some (Iterate (l', m')) \<Rightarrow> RtlUnwind_while k TargetFrame l' m'
         | Some (Exit c s) \<Rightarrow> Some (c, s))
      else Some (RtlUnwind_end k TargetFrame m, l, m))"

declare RtlUnwind_while.simps [code]

text \<open>
  Lines 441 to 498: the state and the locals at the first test of the loop. The argument
  \<open>ExceptionRecord\<close> is \<open>None\<close> when it is not supplied; \<open>ReturnAddress\<close> is the value
  of the intrinsic \<open>_ReturnAddress()\<close>. The local \<open>ContextRecord1\<close> is uninitialised
  but for its \<open>ContextFlags\<close>: its other fields are whatever the state holds in the
  context record, and \<open>RtlpCaptureContext\<close> fills them. The four arguments are four bytes
  each.
\<close>

definition RtlUnwind_setup ::
  "ntrtlp \<Rightarrow> ULONG \<Rightarrow> EXCEPTION_RECORD option \<Rightarrow> ULONG \<Rightarrow> ULONG \<Rightarrow> machine \<Rightarrow> walk \<times> machine" where
  "RtlUnwind_setup k TargetFrame ExceptionRecord1 ReturnValue ReturnAddress m =
     (case RtlpGetStackLimits m of (LowLimit', HighLimit') \<Rightarrow>
        (let r = (case ExceptionRecord1 of
                    None \<Rightarrow> EXCEPTION_RECORD (STATUS_UNWIND k) 0 None (Some ReturnAddress) 0
                  | Some r \<Rightarrow> r);
             r' = (if ARGUMENT_PRESENT TargetFrame then
                     ExceptionFlags_update (\<lambda>f. f OR EXCEPTION_UNWINDING k) r
                   else
                     ExceptionFlags_update
                       (\<lambda>f. f OR (EXCEPTION_UNWINDING k OR EXCEPTION_EXIT_UNWIND k)) r);
             m1 = m\<lparr>ExceptionRecord' := r'\<rparr>;
             c = RtlpCaptureContext k
                   \<lparr>ContextFlags = CONTEXT_INTEGER k OR CONTEXT_CONTROL k OR CONTEXT_SEGMENTS k,
                    Eax = Eax (ContextRecord' m1), Esp = Esp (ContextRecord' m1),
                    Registers = Registers (ContextRecord' m1)\<rparr> m1;
             c' = c\<lparr>Esp := Esp c + (4 + 4 + 4 + 4)\<rparr>;
             c'' = c'\<lparr>Eax := ReturnValue\<rparr>;
             m2 = m1\<lparr>ContextRecord' := c''\<rparr>
         in (\<lparr>RegistrationPointer = RtlpGetRegistrationHead m2,
              HighLimit = HighLimit', LowLimit = LowLimit'\<rparr>, m2)))"

definition RtlUnwind ::
  "ntrtlp \<Rightarrow> ULONG \<Rightarrow> ULONG \<Rightarrow> EXCEPTION_RECORD option \<Rightarrow> ULONG \<Rightarrow> ULONG \<Rightarrow> machine \<Rightarrow>
   (control \<times> machine) option" where
  "RtlUnwind k TargetFrame TargetIp ExceptionRecord1 ReturnValue ReturnAddress m =
     (case RtlUnwind_setup k TargetFrame ExceptionRecord1 ReturnValue ReturnAddress m of
        (l, m') \<Rightarrow> map_option (\<lambda>(c, l', m''). (c, m'')) (RtlUnwind_while k TargetFrame l m'))"

subsection \<open>One loop state after another\<close>

text \<open>
  \<open>dispatch_next k s s'\<close>: the dispatcher's loop, entered in state \<open>s\<close>, runs its body and
  comes back to the test of line 184 in state \<open>s'\<close>. \<open>unwind_next\<close> is the same for the
  loop of line 499.
\<close>

definition dispatch_next ::
  "ntrtlp \<Rightarrow> dispatch_locals \<times> machine \<Rightarrow> dispatch_locals \<times> machine \<Rightarrow> bool" where
  "dispatch_next k s s' =
     (RegistrationPointer (fst s) \<noteq> EXCEPTION_CHAIN_END k \<and>
      RtlDispatchException_body k (fst s) (snd s) = Some (Iterate s'))"

definition unwind_next :: "ntrtlp \<Rightarrow> ULONG \<Rightarrow> walk \<times> machine \<Rightarrow> walk \<times> machine \<Rightarrow> bool" where
  "unwind_next k TargetFrame s s' =
     (RegistrationPointer (fst s) \<noteq> EXCEPTION_CHAIN_END k \<and>
      RtlUnwind_body k TargetFrame (fst s) (snd s) = Some (Iterate s'))"

text \<open>
  The limits held in the locals are the region of the DPC stack that the processor
  control block gives at this moment: what lines 224 and 225 (563 and 564) leave.
\<close>

definition on_dpc_limits :: "ntrtlp \<Rightarrow> 'a walk_scheme \<Rightarrow> machine \<Rightarrow> bool" where
  "on_dpc_limits k l m =
     (HighLimit l = DpcStack (KeGetCurrentPrcb m) \<and>
      LowLimit l = DpcStack (KeGetCurrentPrcb m) - KERNEL_STACK_SIZE k)"

section \<open>Example inputs\<close>

text \<open>
  Four handlers of an image loaded at \<open>0x400000\<close>: one continues the search, one continues
  execution, one reports a nested exception, one a collided unwind; the last two leave a
  registration pointer in the dispatcher context. No other address is a handler that
  returns.
\<close>

definition example_handler ::
  "ULONG \<Rightarrow> ULONG \<Rightarrow> machine \<Rightarrow> (EXCEPTION_DISPOSITION \<times> machine) option" where
  "example_handler EstablisherFrame ExceptionRoutine m =
     (if ExceptionRoutine = 0x401000 then Some (ExceptionContinueSearch, m)
      else if ExceptionRoutine = 0x401010 then Some (ExceptionContinueExecution, m)
      else if ExceptionRoutine = 0x401020 then
        Some (ExceptionNestedException, m\<lparr>DispatcherContext_RegistrationPointer := 0x9020\<rparr>)
      else if ExceptionRoutine = 0x401030 then
        Some (ExceptionCollidedUnwind, m\<lparr>DispatcherContext_RegistrationPointer := 0x9010\<rparr>)
      else None)"

text \<open>
  The parameters with the values of the public i386 headers, the example handlers behind
  both trampolines, an unlink that makes the successor of the node the head of the chain,
  and a context capture that leaves the record as it finds it.
\<close>

definition i386 :: ntrtlp where
  "i386 =
     \<lparr>EXCEPTION_NONCONTINUABLE = 0x1,
      EXCEPTION_UNWINDING = 0x2,
      EXCEPTION_EXIT_UNWIND = 0x4,
      EXCEPTION_STACK_INVALID = 0x8,
      EXCEPTION_NESTED_CALL = 0x10,
      EXCEPTION_CHAIN_END = 0xFFFFFFFF,
      STATUS_NONCONTINUABLE_EXCEPTION = 0xC0000025,
      STATUS_INVALID_DISPOSITION = 0xC0000026,
      STATUS_UNWIND = 0xC0000027,
      STATUS_BAD_STACK = 0xC0000028,
      STATUS_INVALID_UNWIND_TARGET = 0xC0000029,
      DISPATCH_LEVEL = 2,
      KERNEL_STACK_SIZE = 0x3000,
      FLG_ENABLE_EXCEPTION_LOGGING = 0x800000,
      CONTEXT_INTEGER = 0x10002,
      CONTEXT_CONTROL = 0x10001,
      CONTEXT_SEGMENTS = 0x10004,
      sizeof_EXCEPTION_REGISTRATION_RECORD = 8,
      RtlpExecuteHandlerForException = example_handler,
      RtlpExecuteHandlerForUnwind = example_handler,
      RtlpUnlinkHandler = (\<lambda>p m. m\<lparr>RtlpGetRegistrationHead := Next (Registration m p)\<rparr>),
      RtlpCaptureContext = (\<lambda>c m. c)\<rparr>"

text \<open>
  Three frames at \<open>0x9000\<close>, \<open>0x9010\<close> and \<open>0x9020\<close>: the first reports a nested exception
  and names the third, the second continues the search, the third continues execution.
\<close>

definition example_chain :: "ULONG \<Rightarrow> EXCEPTION_REGISTRATION_RECORD" where
  "example_chain a =
     (if a = 0x9000 then \<lparr>Next = 0x9010, Handler = 0x401020\<rparr>
      else if a = 0x9010 then \<lparr>Next = 0x9020, Handler = 0x401000\<rparr>
      else if a = 0x9020 then \<lparr>Next = 0xFFFFFFFF, Handler = 0x401010\<rparr>
      else \<lparr>Next = 0, Handler = 0\<rparr>)"

text \<open>
  The function table of the image, three entries at \<open>0x5000\<close>: the first three handlers
  are registered, the fourth is not.
\<close>

definition example_memory :: "ULONG \<Rightarrow> ULONG" where
  "example_memory a =
     (if a = 0x5000 then 0x1000 else if a = 0x5004 then 0x1010
      else if a = 0x5008 then 0x1020 else 0)"

definition example_machine :: machine where
  "example_machine =
     \<lparr>ExceptionRecord' = EXCEPTION_RECORD 0xC0000005 0 None (Some 0x401234) 0,
      ContextRecord' = \<lparr>ContextFlags = 0x10007, Eax = 0, Esp = 0x8F00, Registers = []\<rparr>,
      DispatcherContext_RegistrationPointer = 0,
      Registration = example_chain,
      Memory = example_memory,
      RtlLookupFunctionTable = (\<lambda>h. (0x5000, 0x400000, 3)),
      RtlpGetStackLimits = (0x8000, 0xA000),
      RtlpGetRegistrationHead = 0x9000,
      KeGetCurrentIrql = 0,
      KeGetCurrentPrcb = \<lparr>DpcRoutineActive = False, DpcStack = 0x20000\<rparr>,
      NtGlobalFlag = 0,
      RtlpExceptionLog = []\<rparr>"

text \<open>The same thread with the head of its chain below the stack.\<close>

definition low_head_machine :: machine where
  "low_head_machine = example_machine\<lparr>RtlpGetRegistrationHead := 0x1000\<rparr>"

text \<open>The locals of the dispatcher and of the unwind on entering the loop for this thread.\<close>

definition example_locals :: dispatch_locals where
  "example_locals =
     \<lparr>RegistrationPointer = 0x9000, HighLimit = 0xA000, LowLimit = 0x8000,
      NestedRegistration = 0, Index = 0\<rparr>"

definition example_walk :: walk where
  "example_walk = \<lparr>RegistrationPointer = 0x9000, HighLimit = 0xA000, LowLimit = 0x8000\<rparr>"

text \<open>The same three frames, each with the handler that continues the search.\<close>

definition search_chain :: "ULONG \<Rightarrow> EXCEPTION_REGISTRATION_RECORD" where
  "search_chain a =
     (if a = 0x9000 then \<lparr>Next = 0x9010, Handler = 0x401000\<rparr>
      else if a = 0x9010 then \<lparr>Next = 0x9020, Handler = 0x401000\<rparr>
      else if a = 0x9020 then \<lparr>Next = 0xFFFFFFFF, Handler = 0x401000\<rparr>
      else \<lparr>Next = 0, Handler = 0\<rparr>)"

definition search_machine :: machine where
  "search_machine = example_machine\<lparr>Registration := search_chain\<rparr>"

text \<open>
  The first frame now has the unregistered handler, which reports a collided unwind and
  names the second frame; its own link points elsewhere, to \<open>0x9008\<close>.
\<close>

definition collided_chain :: "ULONG \<Rightarrow> EXCEPTION_REGISTRATION_RECORD" where
  "collided_chain a =
     (if a = 0x9000 then \<lparr>Next = 0x9008, Handler = 0x401030\<rparr> else search_chain a)"

definition collided_machine :: machine where
  "collided_machine = example_machine\<lparr>Registration := collided_chain\<rparr>"

text \<open>The example thread with a noncontinuable exception.\<close>

definition noncontinuable_machine :: machine where
  "noncontinuable_machine =
     example_machine\<lparr>ExceptionRecord' := EXCEPTION_RECORD 0xC0000005 1 None (Some 0x401234) 0\<rparr>"

text \<open>
  The state of \<open>search_machine\<close> during an unwind called without an exception record,
  with return value 7 from the return address \<open>0x401300\<close>: the record built by the
  unwind with the given flags, the adjusted context, and the given head of the chain.
\<close>

definition unwinding_machine :: "ULONG \<Rightarrow> ULONG \<Rightarrow> machine" where
  "unwinding_machine flags head =
     search_machine
       \<lparr>ExceptionRecord' := EXCEPTION_RECORD 0xC0000027 flags None (Some 0x401300) 0,
        ContextRecord' := \<lparr>ContextFlags = 0x10007, Eax = 7, Esp = 0x8F10, Registers = []\<rparr>,
        RtlpGetRegistrationHead := head\<rparr>"

text \<open>
  The example thread after the first of its three handlers has reported a nested
  exception: the third frame is tracked, the nested-call flag is set.
\<close>

definition nested_locals :: "ULONG \<Rightarrow> dispatch_locals" where
  "nested_locals a = example_locals\<lparr>RegistrationPointer := a, NestedRegistration := 0x9020\<rparr>"

definition nested_machine :: machine where
  "nested_machine =
     example_machine
       \<lparr>ExceptionRecord' := EXCEPTION_RECORD 0xC0000005 0x10 None (Some 0x401234) 0,
        DispatcherContext_RegistrationPointer := 0x9020\<rparr>"

text \<open>
  The thread interrupted by a deferred procedure call: the interrupt level is dispatch
  level, a DPC routine is active, the DPC stack ends at \<open>0x20000\<close>. The head of the chain
  is a frame on the DPC stack, at \<open>0x1F000\<close>, that links to the frames on the stack of
  the thread.
\<close>

definition dpc_chain :: "ULONG \<Rightarrow> EXCEPTION_REGISTRATION_RECORD" where
  "dpc_chain a =
     (if a = 0x1F000 then \<lparr>Next = 0x9000, Handler = 0x401000\<rparr> else search_chain a)"

definition dpc_machine :: machine where
  "dpc_machine =
     example_machine
       \<lparr>Registration := dpc_chain,
        RtlpGetRegistrationHead := 0x1F000,
        KeGetCurrentIrql := 2,
        KeGetCurrentPrcb := \<lparr>DpcRoutineActive = True, DpcStack = 0x20000\<rparr>\<rparr>"

text \<open>The locals once the limits are those of the DPC stack.\<close>

definition dpc_locals :: "ULONG \<Rightarrow> dispatch_locals" where
  "dpc_locals a =
     example_locals\<lparr>RegistrationPointer := a, HighLimit := 0x20000, LowLimit := 0x1D000\<rparr>"

definition dpc_walk :: "ULONG \<Rightarrow> walk" where
  "dpc_walk a =
     example_walk\<lparr>RegistrationPointer := a, HighLimit := 0x20000, LowLimit := 0x1D000\<rparr>"

text \<open>
  The example thread with one word of memory changed: the \<open>ULONG\<close> that follows the
  three entries of the function table, at \<open>0x500C\<close>, holds \<open>0x1030\<close>.
\<close>

definition past_table_machine :: machine where
  "past_table_machine = example_machine\<lparr>Memory := example_memory(0x500C := 0x1030)\<rparr>"

text \<open>
  A fifth handler, at \<open>0x401040\<close>: it continues the search and leaves the processor
  control block with the top of the DPC stack at \<open>0x30000\<close>. The parameters
  \<open>i386_moving\<close> put it behind both trampolines, beside the four example handlers.
\<close>

definition moving_handler ::
  "ULONG \<Rightarrow> ULONG \<Rightarrow> machine \<Rightarrow> (EXCEPTION_DISPOSITION \<times> machine) option" where
  "moving_handler EstablisherFrame ExceptionRoutine m =
     (if ExceptionRoutine = 0x401040 then
        Some (ExceptionContinueSearch,
              m\<lparr>KeGetCurrentPrcb := (KeGetCurrentPrcb m)\<lparr>DpcStack := 0x30000\<rparr>\<rparr>)
      else example_handler EstablisherFrame ExceptionRoutine m)"

definition i386_moving :: ntrtlp where
  "i386_moving =
     i386\<lparr>RtlpExecuteHandlerForException := moving_handler,
          RtlpExecuteHandlerForUnwind := moving_handler\<rparr>"

text \<open>
  The interrupted thread with a chain of two frames, at \<open>0x1F000\<close> with the fifth
  handler and at \<open>0x2F000\<close>, and no function table registered; and the same state
  once the fifth handler has run.
\<close>

definition moving_chain :: "ULONG \<Rightarrow> EXCEPTION_REGISTRATION_RECORD" where
  "moving_chain a =
     (if a = 0x1F000 then \<lparr>Next = 0x2F000, Handler = 0x401040\<rparr>
      else if a = 0x2F000 then \<lparr>Next = 0xFFFFFFFF, Handler = 0x401000\<rparr>
      else \<lparr>Next = 0, Handler = 0\<rparr>)"

definition moving_machine :: machine where
  "moving_machine =
     dpc_machine\<lparr>Registration := moving_chain, RtlLookupFunctionTable := (\<lambda>h. (0, 0, 0))\<rparr>"

definition moved_machine :: machine where
  "moved_machine =
     moving_machine\<lparr>KeGetCurrentPrcb := \<lparr>DpcRoutineActive = True, DpcStack = 0x30000\<rparr>\<rparr>"

section \<open>Properties\<close>

subsection \<open>Unfolding the loops and the examples\<close>

lemmas ex_defs = example_locals_def example_walk_def search_chain_def search_machine_def
  collided_chain_def collided_machine_def noncontinuable_machine_def example_machine_def
  example_chain_def example_memory_def i386_def example_handler_def

lemma RtlUnwind_while_exit:
  "RegistrationPointer l \<noteq> EXCEPTION_CHAIN_END k \<Longrightarrow>
   RtlUnwind_body k TargetFrame l m = Some (Exit c s) \<Longrightarrow>
   RtlUnwind_while k TargetFrame l m = Some (c, s)"
  by (subst RtlUnwind_while.simps) simp

lemma RtlUnwind_while_iterate:
  "RegistrationPointer l \<noteq> EXCEPTION_CHAIN_END k \<Longrightarrow>
   RtlUnwind_body k TargetFrame l m = Some (Iterate (l', m')) \<Longrightarrow>
   RtlUnwind_while k TargetFrame l m = RtlUnwind_while k TargetFrame l' m'"
  by (subst RtlUnwind_while.simps) simp

lemma RtlDispatchException_while_exit:
  "RegistrationPointer l \<noteq> EXCEPTION_CHAIN_END k \<Longrightarrow>
   RtlDispatchException_body k l m = Some (Exit c s) \<Longrightarrow>
   RtlDispatchException_while k l m = Some (c, s)"
  by (subst RtlDispatchException_while.simps) simp

lemma RtlDispatchException_while_iterate:
  "RegistrationPointer l \<noteq> EXCEPTION_CHAIN_END k \<Longrightarrow>
   RtlDispatchException_body k l m = Some (Iterate (l', m')) \<Longrightarrow>
   RtlDispatchException_while k l m = RtlDispatchException_while k l' m'"
  by (subst RtlDispatchException_while.simps) simp

lemma example_walk_in_limits: "\<not> frame_out_of_limits i386 example_walk"
  by (simp add: frame_out_of_limits_def example_walk_def i386_def HighAddress_def)

lemma example_walk_not_end: "RegistrationPointer example_walk \<noteq> EXCEPTION_CHAIN_END i386"
  by (simp add: example_walk_def i386_def)

lemma exit_unwind_no_target:
  "RegistrationPointer example_walk \<noteq> 0"
  "\<not> (ARGUMENT_PRESENT 0 \<and> 0 < RegistrationPointer example_walk)"
  by (simp_all add: example_walk_def ARGUMENT_PRESENT_def)

lemma collided_handler:
  "RtlpExecuteHandlerForUnwind i386 (RegistrationPointer example_walk)
     (Handler (Registration collided_machine (RegistrationPointer example_walk)))
     collided_machine =
   Some (ExceptionCollidedUnwind,
         collided_machine\<lparr>DispatcherContext_RegistrationPointer := 0x9010\<rparr>)"
  by (simp add: ex_defs)

lemmas dpc_defs = dpc_chain_def dpc_machine_def dpc_locals_def dpc_walk_def

lemmas moving_defs = moving_handler_def i386_moving_def moving_chain_def moving_machine_def
  moved_machine_def

subsection \<open>A return of FALSE from the dispatcher\<close>

lemma set_stack_invalid_flags:
  "ExceptionFlags (ExceptionRecord' (set_stack_invalid k m)) AND EXCEPTION_STACK_INVALID k =
   EXCEPTION_STACK_INVALID k"
  by (simp add: set_stack_invalid_def ExceptionFlags_update_def word_ao_absorbs)

lemma body_return_false:
  assumes "EXCEPTION_STACK_INVALID k \<noteq> 0"
    and "RtlDispatchException_body k l m = Some (Exit (Return False) (l', m'))"
  shows "ExceptionFlags (ExceptionRecord' m') AND EXCEPTION_STACK_INVALID k \<noteq> 0"
  using assms
  by (auto simp: RtlDispatchException_body_def RtlDispatchException_switch_def Let_def
        set_stack_invalid_flags
      split: if_splits option.splits bool.splits prod.splits EXCEPTION_DISPOSITION.splits)

lemma while_return_false:
  assumes r: "RtlDispatchException_while k l m = Some y"
  shows "EXCEPTION_STACK_INVALID k \<noteq> 0 \<longrightarrow> fst y = Return False \<longrightarrow>
         ExceptionFlags (ExceptionRecord' (snd (snd y))) AND EXCEPTION_STACK_INVALID k \<noteq> 0 \<or>
         RegistrationPointer (fst (snd y)) = EXCEPTION_CHAIN_END k"
proof (rule RtlDispatchException_while.raw_induct
    [where P = "\<lambda>k l m y. EXCEPTION_STACK_INVALID k \<noteq> 0 \<longrightarrow> fst y = Return False \<longrightarrow>
         ExceptionFlags (ExceptionRecord' (snd (snd y))) AND EXCEPTION_STACK_INVALID k \<noteq> 0 \<or>
         RegistrationPointer (fst (snd y)) = EXCEPTION_CHAIN_END k", OF _ r], goal_cases)
  case (1 w k l m y)
  show ?case
  proof (cases "RegistrationPointer l \<noteq> EXCEPTION_CHAIN_END k")
    case False
    with 1(2) show ?thesis by auto
  next
    case True
    show ?thesis
    proof (cases "RtlDispatchException_body k l m")
      case None
      with True 1(2) show ?thesis by simp
    next
      case (Some it)
      show ?thesis
      proof (cases it)
        case (Iterate s)
        with Some True 1(2) have "w k (fst s) (snd s) = Some y" by (cases s) simp
        from 1(1)[OF this] show ?thesis .
      next
        case (Exit c s)
        with Some True 1(2) have y: "y = (c, s)" by simp
        show ?thesis
        proof (intro impI)
          assume k: "EXCEPTION_STACK_INVALID k \<noteq> 0" and "fst y = Return False"
          with y have c: "c = Return False" by simp
          from Some Exit c
          have "RtlDispatchException_body k l m = Some (Exit (Return False) (fst s, snd s))"
            by simp
          from body_return_false[OF k this] y
          show "ExceptionFlags (ExceptionRecord' (snd (snd y))) AND EXCEPTION_STACK_INVALID k \<noteq> 0 \<or>
                RegistrationPointer (fst (snd y)) = EXCEPTION_CHAIN_END k"
            by simp
        qed
      qed
    qed
  qed
qed

text \<open>
  Claim C1. Whenever \<open>RtlDispatchException\<close> returns \<open>FALSE\<close>, the stack-invalid flag is
  set in the flags of the exception record at the moment of the return, or the
  registration pointer has reached \<open>EXCEPTION_CHAIN_END\<close>. The mask of the flag is taken
  to be nonzero. \<open>l'\<close> and \<open>m'\<close> are the locals and the state at the return.
\<close>

theorem RtlDispatchException_false_return:
  assumes "EXCEPTION_STACK_INVALID k \<noteq> 0"
    and "RtlDispatchException_while k (RtlDispatchException_locals Index0 m) m =
         Some (Return False, l', m')"
  shows "ExceptionFlags (ExceptionRecord' m') AND EXCEPTION_STACK_INVALID k \<noteq> 0 \<or>
         RegistrationPointer l' = EXCEPTION_CHAIN_END k"
  using while_return_false[OF assms(2)] assms(1) by simp

theorem RtlDispatchException_false_return_witness:
  "EXCEPTION_STACK_INVALID i386 \<noteq> 0 \<and>
   RtlDispatchException_while i386 (RtlDispatchException_locals 0 low_head_machine)
     low_head_machine =
   Some (Return False, RtlDispatchException_locals 0 low_head_machine,
         set_stack_invalid i386 low_head_machine) \<and>
   (RegistrationPointer (RtlDispatchException_locals 0 low_head_machine) =
      EXCEPTION_CHAIN_END i386 \<or>
    ExceptionFlags (ExceptionRecord' (set_stack_invalid i386 low_head_machine)) AND
      EXCEPTION_STACK_INVALID i386 \<noteq> 0)"
proof -
  have h1: "EXCEPTION_STACK_INVALID i386 \<noteq> 0"
    by (simp add: i386_def)
  have b: "RtlDispatchException_body i386 (RtlDispatchException_locals 0 low_head_machine)
             low_head_machine =
           Some (Exit (Return False) (RtlDispatchException_locals 0 low_head_machine,
                 set_stack_invalid i386 low_head_machine))"
    by (simp add: RtlDispatchException_body_def RtlDispatchException_locals_def
          low_head_machine_def example_machine_def frame_out_of_limits_def
          frame_on_dpc_stack_def i386_def)
  have h2: "RtlDispatchException_while i386 (RtlDispatchException_locals 0 low_head_machine)
              low_head_machine =
            Some (Return False, RtlDispatchException_locals 0 low_head_machine,
                  set_stack_invalid i386 low_head_machine)"
    by (subst RtlDispatchException_while.simps)
       (simp add: b, simp add: RtlDispatchException_locals_def low_head_machine_def
          example_machine_def i386_def)
  from RtlDispatchException_false_return[OF h1 h2] h1 h2 show ?thesis by blast
qed

subsection \<open>The search of the function table\<close>

lemma LONG_id: "- (2 ^ 31) \<le> x \<Longrightarrow> x < 2 ^ 31 \<Longrightarrow> LONG x = x"
  by (simp add: LONG_def)

lemma while_unfold_done:
  "High < Low \<Longrightarrow> RtlIsValidHandler_while Mem ft h Low High = Some False"
  by (subst RtlIsValidHandler_while.simps) simp

lemma while_unfold_step:
  assumes "Low \<le> High" and "0 \<le> Low" and "High < 2 ^ 30"
  shows "RtlIsValidHandler_while Mem ft h Low High =
     (let Middle = (Low + High) div 2; FunctionEntry = Mem (ft + 4 * word_of_int Middle)
      in if h < FunctionEntry then RtlIsValidHandler_while Mem ft h Low (Middle - 1)
         else if h > FunctionEntry then RtlIsValidHandler_while Mem ft h (Middle + 1) High
         else Some True)"
proof -
  from assms have s: "LONG (Low + High) = Low + High" by (intro LONG_id) auto
  from assms have m: "0 \<le> (Low + High) div 2" "(Low + High) div 2 < 2 ^ 30" by auto
  then have a: "LONG ((Low + High) div 2 - 1) = (Low + High) div 2 - 1"
    and b: "LONG ((Low + High) div 2 + 1) = (Low + High) div 2 + 1"
    by (auto intro!: LONG_id)
  show ?thesis
    by (subst RtlIsValidHandler_while.simps) (simp add: assms(1) s a b Let_def)
qed

lemma RtlIsValidHandler_while_sorted:
  assumes srt: "sorted T" and len: "length T < 2 ^ 30" and tab: "table_at Mem ft T"
    and lo: "0 \<le> Low" "Low \<le> int (length T)"
    and hi: "Low \<le> High + 1" "High \<le> int (length T)"
    and left: "\<forall>i. int i < Low \<and> i < length T \<longrightarrow> T ! i < h"
    and right: "\<forall>i. High < int i \<and> i < length T \<longrightarrow> h < T ! i"
  shows "RtlIsValidHandler_while Mem ft h Low High =
           Some (if High = int (length T) \<and> (\<forall>i < length T. T ! i < h)
                 then Mem (ft + 4 * of_nat (length T)) = h
                 else h \<in> set T)"
  using lo hi left right
proof (induction "nat (High - Low + 1)" arbitrary: Low High rule: less_induct)
  case less
  let ?n = "length T"
  show ?case
  proof (cases "High < Low")
    case True
    with less.prems have "High < int ?n" by simp
    moreover have "h \<notin> set T"
    proof
      assume "h \<in> set T"
      then obtain i where i: "i < ?n" "T ! i = h" by (auto simp: in_set_conv_nth)
      show False
      proof (cases "int i < Low")
        case True
        with i less.prems(5) show False by auto
      next
        case False
        with \<open>High < Low\<close> have "High < int i" by simp
        with i less.prems(6) show False by auto
      qed
    qed
    ultimately show ?thesis using True by (simp add: while_unfold_done)
  next
    case False
    then have le: "Low \<le> High" by simp
    define Middle where "Middle = (Low + High) div 2"
    have mid: "Low \<le> Middle" "Middle \<le> High" using le by (auto simp: Middle_def)
    have hb: "High < 2 ^ 30" using less.prems(4) len by simp
    note step = while_unfold_step[OF le less.prems(1) hb, of Mem ft h, folded Middle_def]
    obtain j where j: "Middle = int j" using mid less.prems(1) by (metis nonneg_int_cases order_trans)
    have wj: "(word_of_int Middle :: ULONG) = of_nat j" by (simp add: j)
    show ?thesis
    proof (cases "j < ?n")
      case True
      with tab have e: "Mem (ft + 4 * word_of_int Middle) = T ! j"
        by (simp add: table_at_def wj)
      have nall: "T ! j \<le> h \<Longrightarrow> h \<le> T ! j \<Longrightarrow> T ! j = h" by simp
      show ?thesis
      proof (cases "h < T ! j")
        case lt: True
        have r: "\<forall>i. Middle - 1 < int i \<and> i < ?n \<longrightarrow> h < T ! i"
        proof (intro allI impI)
          fix i assume "Middle - 1 < int i \<and> i < ?n"
          then have "j \<le> i" "i < ?n" using j by auto
          with srt have "T ! j \<le> T ! i" by (simp add: sorted_nth_mono)
          with lt show "h < T ! i" by simp
        qed
        have "RtlIsValidHandler_while Mem ft h Low (Middle - 1) =
              Some (if Middle - 1 = int ?n \<and> (\<forall>i < ?n. T ! i < h)
                    then Mem (ft + 4 * of_nat ?n) = h else h \<in> set T)"
          using mid less.prems True j
          by (intro less.hyps) (auto intro: r[rule_format])
        moreover have "Middle - 1 \<noteq> int ?n" using True j by simp
        moreover have "\<not> (\<forall>i < ?n. T ! i < h)" using True lt by (auto simp: not_less intro!: exI[of _ j])
        ultimately show ?thesis using step e lt by (auto simp: Let_def)
      next
        case nlt: False
        show ?thesis
        proof (cases "T ! j < h")
          case gt: True
          have l: "\<forall>i. int i < Middle + 1 \<and> i < ?n \<longrightarrow> T ! i < h"
          proof (intro allI impI)
            fix i assume "int i < Middle + 1 \<and> i < ?n"
            then have "i \<le> j" using j by auto
            with srt True have "T ! i \<le> T ! j" by (simp add: sorted_nth_mono)
            with gt show "T ! i < h" by simp
          qed
          have "RtlIsValidHandler_while Mem ft h (Middle + 1) High =
                Some (if High = int ?n \<and> (\<forall>i < ?n. T ! i < h)
                      then Mem (ft + 4 * of_nat ?n) = h else h \<in> set T)"
            using mid less.prems True j
            by (intro less.hyps) (auto intro: l[rule_format])
          then show ?thesis using step e nlt gt by (simp add: Let_def)
        next
          case False
          with nlt have eq: "T ! j = h" by simp
          then have "h \<in> set T" using True by (auto simp: in_set_conv_nth)
          moreover have "\<not> (\<forall>i < ?n. T ! i < h)" using True eq by auto
          ultimately show ?thesis using step e eq by (auto simp: Let_def)
        qed
      qed
    next
      case False
      with mid less.prems(4) j have jn: "j = ?n" by simp
      with mid less.prems j have HL: "High = int ?n" "Low = int ?n"
        by (auto simp: Middle_def)
      have all: "\<forall>i < ?n. T ! i < h" using less.prems(5) HL by simp
      have e: "Mem (ft + 4 * word_of_int Middle) = Mem (ft + 4 * of_nat ?n)"
        by (simp add: wj jn)
      have d1: "RtlIsValidHandler_while Mem ft h Low (Middle - 1) = Some False"
        using HL j jn by (intro while_unfold_done) simp
      have d2: "RtlIsValidHandler_while Mem ft h (Middle + 1) High = Some False"
        using HL j jn by (intro while_unfold_done) simp
      show ?thesis using step e d1 d2 HL all by (auto simp: Let_def)
    qed
  qed
qed

lemma RtlIsValidHandler_sorted_table:
  assumes "RtlLookupFunctionTable m Handler' = (FunctionTable, Base, of_nat (length T))"
    and "FunctionTable \<noteq> 0" and "T \<noteq> []" and "length T < 2 ^ 30"
    and "sorted T" and "table_at (Memory m) FunctionTable T"
  shows "RtlIsValidHandler m Handler' =
           Some (if \<forall>e \<in> set T. e < Handler' - Base
                 then Memory m (FunctionTable + 4 * of_nat (length T)) = Handler' - Base
                 else Handler' - Base \<in> set T)"
proof -
  let ?n = "length T"
  have n: "?n < 2 ^ 32" "?n < 2 ^ 31" using assms(4) by simp_all
  have u: "unat (of_nat ?n :: ULONG) = ?n" using n by (simp add: unat_of_nat)
  have nz: "(of_nat ?n :: ULONG) \<noteq> 0"
    using u assms(3) by (metis length_0_conv unat_0)
  have nm: "(of_nat ?n :: ULONG) \<noteq> - 1"
  proof
    assume "(of_nat ?n :: ULONG) = - 1"
    then have "unat (of_nat ?n :: ULONG) = unat (- 1 :: ULONG)" by simp
    moreover have "unat (- 1 :: ULONG) = 4294967295"
      by (simp add: unsigned_minus_1_eq_mask mask_eq_exp_minus_1)
    ultimately show False using u assms(4) by simp
  qed
  have s: "sint (of_nat ?n :: ULONG) = int ?n"
    using n by (simp add: signed_of_nat signed_take_bit_int_eq_self)
  have all: "(\<forall>i < ?n. T ! i < Handler' - Base) = (\<forall>e \<in> set T. e < Handler' - Base)"
    by (metis in_set_conv_nth)
  have "RtlIsValidHandler_while (Memory m) FunctionTable (Handler' - Base) 0 (int ?n) =
          Some (if int ?n = int ?n \<and> (\<forall>i < ?n. T ! i < Handler' - Base)
                then Memory m (FunctionTable + 4 * of_nat ?n) = Handler' - Base
                else Handler' - Base \<in> set T)"
    using assms by (intro RtlIsValidHandler_while_sorted) auto
  then show ?thesis
    using assms(1,2) nz nm s all by (simp add: RtlIsValidHandler_def)
qed

text \<open>
  Claim C2 fails on the code. The table of the example image has the three entries
  \<open>0x1000\<close>, \<open>0x1010\<close> and \<open>0x1020\<close>. The handler \<open>0x401030\<close> is biased to \<open>0x1030\<close>, above
  every entry. The search starts with \<open>High = FunctionTableLength\<close>, reads
  \<open>FunctionTable[3]\<close>, the word after the table, and reports the handler valid when that
  word is \<open>0x1030\<close>, invalid when it is 0. By \<open>RtlIsValidHandler_sorted_table\<close> this is
  the only way the search leaves the table: for an address that some entry equals or
  exceeds, the answer is membership in the table.
\<close>

theorem RtlIsValidHandler_past_table:
  "RtlLookupFunctionTable past_table_machine 0x401030 = (0x5000, 0x400000, 3) \<and>
   Memory past_table_machine 0x5000 = 0x1000 \<and>
   Memory past_table_machine 0x5004 = 0x1010 \<and>
   Memory past_table_machine 0x5008 = 0x1020 \<and>
   RtlIsValidHandler past_table_machine 0x401030 = Some True \<and>
   RtlIsValidHandler example_machine 0x401030 = Some False"
  by (simp add: RtlIsValidHandler_def RtlIsValidHandler_while.simps LONG_def
        past_table_machine_def example_machine_def example_memory_def)

subsection \<open>The target frame tests of the unwind\<close>

text \<open>
  Claim C3. On every iteration of the unwind the target frame is tested first. If the
  registration pointer equals the target frame, the routine ends in \<open>ZwContinue\<close> with the
  context record, not alertable, and the state is the one the iteration began with: no
  handler runs. Otherwise, if a target frame was supplied and lies below the registration
  pointer, the routine ends raising \<open>STATUS_INVALID_UNWIND_TARGET\<close>, noncontinuable, with
  the working exception record as inner record. Neither case depends on the stack limits
  or on the alignment of the frame.
\<close>

theorem RtlUnwind_target_tests_first:
  assumes "RegistrationPointer l \<noteq> EXCEPTION_CHAIN_END k"
  shows "(RegistrationPointer l = TargetFrame \<longrightarrow>
            RtlUnwind_while k TargetFrame l m =
              Some (ZwContinue (ContextRecord' m) False, l, m)) \<and>
         (RegistrationPointer l \<noteq> TargetFrame \<and> ARGUMENT_PRESENT TargetFrame \<and>
          TargetFrame < RegistrationPointer l \<longrightarrow>
            RtlUnwind_while k TargetFrame l m =
              Some (RtlRaiseException
                      (EXCEPTION_RECORD (STATUS_INVALID_UNWIND_TARGET k)
                         (EXCEPTION_NONCONTINUABLE k) (Some (ExceptionRecord' m)) None 0),
                    l, m))"
  using assms
  by (auto intro!: RtlUnwind_while_exit simp: RtlUnwind_body_def ExceptionRecord2_def)

theorem RtlUnwind_target_tests_first_witness:
  "RtlUnwind_while i386 0x9000 example_walk search_machine =
     Some (ZwContinue (ContextRecord' search_machine) False, example_walk, search_machine) \<and>
   RtlUnwind_while i386 0x8800 example_walk search_machine =
     Some (RtlRaiseException
             (EXCEPTION_RECORD (STATUS_INVALID_UNWIND_TARGET i386) (EXCEPTION_NONCONTINUABLE i386)
                (Some (ExceptionRecord' search_machine)) None 0),
           example_walk, search_machine)"
proof -
  have a: "RegistrationPointer example_walk = 0x9000"
    by (simp add: example_walk_def)
  have b: "RegistrationPointer example_walk \<noteq> 0x8800 \<and> ARGUMENT_PRESENT 0x8800 \<and>
           0x8800 < RegistrationPointer example_walk"
    by (simp add: example_walk_def ARGUMENT_PRESENT_def)
  from RtlUnwind_target_tests_first[OF example_walk_not_end, of "0x9000" search_machine]
       RtlUnwind_target_tests_first[OF example_walk_not_end, of "0x8800" search_machine] a b
  show ?thesis by blast
qed

subsection \<open>Collided unwind\<close>

text \<open>
  Claim C4. In the unwind, when the handler of a frame that passed the tests returns
  \<open>ExceptionCollidedUnwind\<close>, the registration pointer is replaced by the registration
  pointer of the dispatcher context; the walk goes on at the link of that node, and that
  node is the one handed to \<open>RtlpUnlinkHandler\<close>: the node whose handler ran is not.
  When the handler returns \<open>ExceptionContinueSearch\<close>, the walk goes on at the link of
  the node whose handler ran, and that node is unlinked. The link is read before the
  unlink, in the state the handler left.
\<close>

theorem RtlUnwind_collided_unwind:
  assumes "RegistrationPointer l \<noteq> TargetFrame"
    and "\<not> (ARGUMENT_PRESENT TargetFrame \<and> TargetFrame < RegistrationPointer l)"
    and "\<not> frame_out_of_limits k l"
    and "RtlpExecuteHandlerForUnwind k (RegistrationPointer l)
           (Handler (Registration m (RegistrationPointer l))) m = Some (Disposition, m1)"
  shows "(Disposition = ExceptionCollidedUnwind \<longrightarrow>
            RtlUnwind_body k TargetFrame l m =
              Some (Iterate
                (l\<lparr>RegistrationPointer :=
                     Next (Registration m1 (DispatcherContext_RegistrationPointer m1))\<rparr>,
                 RtlpUnlinkHandler k (DispatcherContext_RegistrationPointer m1) m1))) \<and>
         (Disposition = ExceptionContinueSearch \<longrightarrow>
            RtlUnwind_body k TargetFrame l m =
              Some (Iterate
                (l\<lparr>RegistrationPointer := Next (Registration m1 (RegistrationPointer l))\<rparr>,
                 RtlpUnlinkHandler k (RegistrationPointer l) m1)))"
  using assms
  by (auto simp: RtlUnwind_body_def RtlUnwind_switch_def RtlUnwind_step_def Let_def)

theorem RtlUnwind_collided_unwind_witness:
  "RtlUnwind_body i386 0 example_walk collided_machine =
     Some (Iterate
       (example_walk\<lparr>RegistrationPointer := 0x9020\<rparr>,
        collided_machine\<lparr>DispatcherContext_RegistrationPointer := 0x9010,
                         RtlpGetRegistrationHead := 0x9020\<rparr>)) \<and>
   RtlUnwind_body i386 0 example_walk search_machine =
     Some (Iterate
       (example_walk\<lparr>RegistrationPointer := 0x9010\<rparr>,
        search_machine\<lparr>RtlpGetRegistrationHead := 0x9010\<rparr>))"
proof -
  have e: "RtlpExecuteHandlerForUnwind i386 (RegistrationPointer example_walk)
             (Handler (Registration search_machine (RegistrationPointer example_walk)))
             search_machine =
           Some (ExceptionContinueSearch, search_machine)"
    by (simp add: ex_defs)
  from RtlUnwind_collided_unwind
         [OF exit_unwind_no_target example_walk_in_limits collided_handler]
       RtlUnwind_collided_unwind[OF exit_unwind_no_target example_walk_in_limits e]
  show ?thesis by (simp add: ex_defs)
qed

subsection \<open>Nested exceptions\<close>

text \<open>
  Claim C5. A frame passes the limits and its handler the validation; the handler returns
  in state \<open>m2\<close>, and \<open>(l3, m3)\<close> is what lines 277 to 280 make of it. The disposition is
  dispatched in \<open>(l3, m3)\<close>: when the frame is the tracked nested registration, the
  nested-call flag is already clear there and the tracked registration is 0; when it is
  not, the exception record is as the handler left it and the tracked registration is
  kept. On \<open>ExceptionNestedException\<close> the loop goes on to the next frame with the
  nested-call flag set, and the tracked registration is replaced by the registration
  pointer of the dispatcher context only when that is strictly greater.
\<close>

theorem RtlDispatchException_nested_exception:
  assumes "\<not> frame_out_of_limits k l"
    and "RtlIsValidHandler m (Handler (Registration m (RegistrationPointer l))) = Some True"
    and "log_handler k l m = (l1, m1)"
    and "RtlpExecuteHandlerForException k (RegistrationPointer l1)
           (Handler (Registration m1 (RegistrationPointer l1))) m1 = Some (Disposition, m2)"
    and "end_nested_context k l1 (log_disposition k Disposition l1 m2) = (l3, m3)"
  shows "RtlDispatchException_body k l m = Some (RtlDispatchException_switch k Disposition l3 m3) \<and>
         (NestedRegistration l = RegistrationPointer l \<longrightarrow>
            ExceptionFlags (ExceptionRecord' m3) AND EXCEPTION_NESTED_CALL k = 0 \<and>
            NestedRegistration l3 = 0) \<and>
         (NestedRegistration l \<noteq> RegistrationPointer l \<longrightarrow>
            ExceptionRecord' m3 = ExceptionRecord' m2 \<and>
            NestedRegistration l3 = NestedRegistration l) \<and>
         (Disposition = ExceptionNestedException \<longrightarrow>
            RtlDispatchException_body k l m =
              Some (Iterate
                (l3\<lparr>NestedRegistration :=
                      (if DispatcherContext_RegistrationPointer m2 > NestedRegistration l3
                       then DispatcherContext_RegistrationPointer m2
                       else NestedRegistration l3),
                    RegistrationPointer := Next (Registration m2 (RegistrationPointer l))\<rparr>,
                 m3\<lparr>ExceptionRecord' :=
                      ExceptionFlags_update (\<lambda>f. f OR EXCEPTION_NESTED_CALL k)
                        (ExceptionRecord' m3)\<rparr>)) \<and>
            (ExceptionFlags (ExceptionRecord' m3) OR EXCEPTION_NESTED_CALL k) AND
              EXCEPTION_NESTED_CALL k = EXCEPTION_NESTED_CALL k)"
proof -
  have b: "RtlDispatchException_body k l m = Some (RtlDispatchException_switch k Disposition l3 m3)"
    using assms by (simp add: RtlDispatchException_body_def)
  have l1: "RegistrationPointer l1 = RegistrationPointer l"
    "NestedRegistration l1 = NestedRegistration l"
    using assms(3) by (auto simp: log_handler_def split: if_splits)
  have m2': "ExceptionRecord' (log_disposition k Disposition l1 m2) = ExceptionRecord' m2"
    "DispatcherContext_RegistrationPointer (log_disposition k Disposition l1 m2) =
     DispatcherContext_RegistrationPointer m2"
    "Registration (log_disposition k Disposition l1 m2) = Registration m2"
    by (simp_all add: log_disposition_def)
  have c: "NestedRegistration l = RegistrationPointer l \<longrightarrow>
            ExceptionFlags (ExceptionRecord' m3) AND EXCEPTION_NESTED_CALL k = 0 \<and>
            NestedRegistration l3 = 0"
    using assms(5) l1
    by (auto simp: end_nested_context_def ExceptionFlags_update_def word_bw_assocs)
  have d: "NestedRegistration l \<noteq> RegistrationPointer l \<longrightarrow>
            ExceptionRecord' m3 = ExceptionRecord' m2 \<and>
            NestedRegistration l3 = NestedRegistration l"
    using assms(5) l1 m2' by (auto simp: end_nested_context_def)
  have m3: "DispatcherContext_RegistrationPointer m3 = DispatcherContext_RegistrationPointer m2"
    "Registration m3 = Registration m2" "RegistrationPointer l3 = RegistrationPointer l"
    using assms(5) l1 m2' by (auto simp: end_nested_context_def split: if_splits)
  have e: "Disposition = ExceptionNestedException \<longrightarrow>
            RtlDispatchException_body k l m =
              Some (Iterate
                (l3\<lparr>NestedRegistration :=
                      (if DispatcherContext_RegistrationPointer m2 > NestedRegistration l3
                       then DispatcherContext_RegistrationPointer m2
                       else NestedRegistration l3),
                    RegistrationPointer := Next (Registration m2 (RegistrationPointer l))\<rparr>,
                 m3\<lparr>ExceptionRecord' :=
                      ExceptionFlags_update (\<lambda>f. f OR EXCEPTION_NESTED_CALL k)
                        (ExceptionRecord' m3)\<rparr>))"
    using b m3 by (auto simp: RtlDispatchException_switch_def next_registration_def Let_def)
  show ?thesis using b c d e by (simp add: word_ao_absorbs)
qed

text \<open>
  The chain of three frames: the first handler reports a nested exception and names the
  third frame. The flag is set after the first frame, still set after the second, and
  clear when the disposition of the third is dispatched; the dispatcher returns \<open>TRUE\<close>.
\<close>

lemma in_limits:
  "a = 0x9000 \<or> a = 0x9010 \<or> a = 0x9020 \<Longrightarrow>
   \<not> frame_out_of_limits i386 (example_locals\<lparr>RegistrationPointer := a, NestedRegistration := n\<rparr>)"
  by (auto simp: frame_out_of_limits_def example_locals_def i386_def HighAddress_def)

theorem RtlDispatchException_nested_exception_witness:
  "RtlDispatchException_body i386 example_locals example_machine =
     Some (Iterate (nested_locals 0x9010, nested_machine)) \<and>
   ExceptionFlags (ExceptionRecord' nested_machine) AND EXCEPTION_NESTED_CALL i386 =
     EXCEPTION_NESTED_CALL i386 \<and>
   NestedRegistration (nested_locals 0x9010) = 0x9020 \<and>
   RtlDispatchException_body i386 (nested_locals 0x9010) nested_machine =
     Some (Iterate (nested_locals 0x9020, nested_machine)) \<and>
   RtlDispatchException_body i386 (nested_locals 0x9020) nested_machine =
     Some (Exit (Return True)
       (example_locals\<lparr>RegistrationPointer := 0x9020\<rparr>,
        example_machine\<lparr>DispatcherContext_RegistrationPointer := 0x9020\<rparr>)) \<and>
   ExceptionFlags (ExceptionRecord'
     (example_machine\<lparr>DispatcherContext_RegistrationPointer := 0x9020\<rparr>)) AND
     EXCEPTION_NESTED_CALL i386 = 0 \<and>
   RtlDispatchException i386 0 example_machine =
     Some (Return True, example_machine\<lparr>DispatcherContext_RegistrationPointer := 0x9020\<rparr>)"
proof -
  have lim1: "\<not> frame_out_of_limits i386 example_locals"
    using in_limits[of "0x9000" 0] by (simp add: example_locals_def)
  have lim2: "\<not> frame_out_of_limits i386 (nested_locals 0x9010)"
    using in_limits[of "0x9010" "0x9020"] by (simp add: nested_locals_def)
  have lim3: "\<not> frame_out_of_limits i386 (nested_locals 0x9020)"
    using in_limits[of "0x9020" "0x9020"] by (simp add: nested_locals_def)
  have v1: "RtlIsValidHandler example_machine
              (Handler (Registration example_machine (RegistrationPointer example_locals))) =
            Some True"
    by (simp add: RtlIsValidHandler_def RtlIsValidHandler_while.simps LONG_def ex_defs)
  have v2: "RtlIsValidHandler nested_machine
              (Handler (Registration nested_machine (RegistrationPointer (nested_locals 0x9010)))) =
            Some True"
    by (simp add: RtlIsValidHandler_def RtlIsValidHandler_while.simps LONG_def ex_defs
          nested_machine_def nested_locals_def)
  have v3: "RtlIsValidHandler nested_machine
              (Handler (Registration nested_machine (RegistrationPointer (nested_locals 0x9020)))) =
            Some True"
    by (simp add: RtlIsValidHandler_def RtlIsValidHandler_while.simps LONG_def ex_defs
          nested_machine_def nested_locals_def)
  have g1: "log_handler i386 example_locals example_machine = (example_locals, example_machine)"
    by (simp add: log_handler_def ex_defs)
  have g2: "log_handler i386 (nested_locals a) nested_machine = (nested_locals a, nested_machine)"
    for a by (simp add: log_handler_def ex_defs nested_machine_def)
  have h1: "RtlpExecuteHandlerForException i386 (RegistrationPointer example_locals)
              (Handler (Registration example_machine (RegistrationPointer example_locals)))
              example_machine =
            Some (ExceptionNestedException,
                  example_machine\<lparr>DispatcherContext_RegistrationPointer := 0x9020\<rparr>)"
    by (simp add: ex_defs)
  have h2: "RtlpExecuteHandlerForException i386 (RegistrationPointer (nested_locals 0x9010))
              (Handler (Registration nested_machine (RegistrationPointer (nested_locals 0x9010))))
              nested_machine = Some (ExceptionContinueSearch, nested_machine)"
    by (simp add: ex_defs nested_machine_def nested_locals_def)
  have h3: "RtlpExecuteHandlerForException i386 (RegistrationPointer (nested_locals 0x9020))
              (Handler (Registration nested_machine (RegistrationPointer (nested_locals 0x9020))))
              nested_machine = Some (ExceptionContinueExecution, nested_machine)"
    by (simp add: ex_defs nested_machine_def nested_locals_def)
  have e1: "end_nested_context i386 example_locals
              (log_disposition i386 ExceptionNestedException example_locals
                 (example_machine\<lparr>DispatcherContext_RegistrationPointer := 0x9020\<rparr>)) =
            (example_locals, example_machine\<lparr>DispatcherContext_RegistrationPointer := 0x9020\<rparr>)"
    by (simp add: end_nested_context_def log_disposition_def ex_defs)
  have e2: "end_nested_context i386 (nested_locals 0x9010)
              (log_disposition i386 ExceptionContinueSearch (nested_locals 0x9010) nested_machine) =
            (nested_locals 0x9010, nested_machine)"
    by (simp add: end_nested_context_def log_disposition_def ex_defs nested_machine_def
          nested_locals_def)
  have e3: "end_nested_context i386 (nested_locals 0x9020)
              (log_disposition i386 ExceptionContinueExecution (nested_locals 0x9020)
                 nested_machine) =
            (example_locals\<lparr>RegistrationPointer := 0x9020\<rparr>,
             example_machine\<lparr>DispatcherContext_RegistrationPointer := 0x9020\<rparr>)"
    by (simp add: end_nested_context_def log_disposition_def ex_defs nested_machine_def
          nested_locals_def ExceptionFlags_update_def)
  note t1 = RtlDispatchException_nested_exception[OF lim1 v1 g1 h1 e1,
      THEN conjunct2, THEN conjunct2, THEN conjunct2, THEN mp, OF refl, THEN conjunct1]
  note t2 = RtlDispatchException_nested_exception[OF lim2 v2 g2 h2 e2, THEN conjunct1]
  note t3 = RtlDispatchException_nested_exception[OF lim3 v3 g2 h3 e3, THEN conjunct1]
  note c3 = RtlDispatchException_nested_exception[OF lim3 v3 g2 h3 e3,
      THEN conjunct2, THEN conjunct1]
  have r1: "RtlDispatchException_body i386 example_locals example_machine =
     Some (Iterate (nested_locals 0x9010, nested_machine))"
    using t1 by (simp add: ex_defs nested_locals_def nested_machine_def ExceptionFlags_update_def)
  have r2: "RtlDispatchException_body i386 (nested_locals 0x9010) nested_machine =
     Some (Iterate (nested_locals 0x9020, nested_machine))"
    using t2 by (simp add: RtlDispatchException_switch_def next_registration_def ex_defs
          nested_locals_def nested_machine_def)
  have r3: "RtlDispatchException_body i386 (nested_locals 0x9020) nested_machine =
     Some (Exit (Return True)
       (example_locals\<lparr>RegistrationPointer := 0x9020\<rparr>,
        example_machine\<lparr>DispatcherContext_RegistrationPointer := 0x9020\<rparr>))"
    using t3 by (simp add: RtlDispatchException_switch_def ex_defs)
  have f: "ExceptionFlags (ExceptionRecord' nested_machine) AND EXCEPTION_NESTED_CALL i386 =
             EXCEPTION_NESTED_CALL i386"
    "NestedRegistration (nested_locals 0x9010) = 0x9020"
    by (simp_all add: nested_machine_def nested_locals_def i386_def)
  have z: "ExceptionFlags (ExceptionRecord'
     (example_machine\<lparr>DispatcherContext_RegistrationPointer := 0x9020\<rparr>)) AND
     EXCEPTION_NESTED_CALL i386 = 0"
    using c3 by (simp add: nested_locals_def)
  have l0: "RtlDispatchException_locals 0 example_machine = example_locals"
    by (simp add: RtlDispatchException_locals_def ex_defs)
  have ne: "RegistrationPointer example_locals \<noteq> EXCEPTION_CHAIN_END i386"
    "RegistrationPointer (nested_locals 0x9010) \<noteq> EXCEPTION_CHAIN_END i386"
    "RegistrationPointer (nested_locals 0x9020) \<noteq> EXCEPTION_CHAIN_END i386"
    by (simp_all add: ex_defs nested_locals_def)
  have run: "RtlDispatchException i386 0 example_machine =
     Some (Return True, example_machine\<lparr>DispatcherContext_RegistrationPointer := 0x9020\<rparr>)"
    using r1 r2 r3 ne
    by (simp add: RtlDispatchException_def l0 RtlDispatchException_while_iterate
          RtlDispatchException_while_exit)
  from r1 r2 r3 f z run show ?thesis by simp
qed

subsection \<open>Continue execution\<close>

lemma example_handler_valid:
  "RtlIsValidHandler (example_machine\<lparr>ExceptionRecord' := r\<rparr>) 0x401010 = Some True"
  by (simp add: RtlIsValidHandler_def example_machine_def RtlIsValidHandler_while.simps
        LONG_def example_memory_def)

text \<open>
  Claim C6. A frame passes the limits and its handler the validation, and the handler
  returns \<open>ExceptionContinueExecution\<close>. \<open>(l3, m3)\<close> is the state in which the disposition
  is dispatched. If the noncontinuable flag is set in the exception record, the dispatcher
  ends raising a record with code \<open>STATUS_NONCONTINUABLE_EXCEPTION\<close>, the flags
  \<open>EXCEPTION_NONCONTINUABLE\<close>, no parameters and the current exception record as inner
  record; if the flag is clear it returns \<open>TRUE\<close> and no further handler runs.
\<close>

theorem RtlDispatchException_continue_execution:
  assumes "RegistrationPointer l \<noteq> EXCEPTION_CHAIN_END k"
    and "\<not> frame_out_of_limits k l"
    and "RtlIsValidHandler m (Handler (Registration m (RegistrationPointer l))) = Some True"
    and "log_handler k l m = (l1, m1)"
    and "RtlpExecuteHandlerForException k (RegistrationPointer l1)
           (Handler (Registration m1 (RegistrationPointer l1))) m1 =
         Some (ExceptionContinueExecution, m2)"
    and "end_nested_context k l1 (log_disposition k ExceptionContinueExecution l1 m2) = (l3, m3)"
  shows "(ExceptionFlags (ExceptionRecord' m3) AND EXCEPTION_NONCONTINUABLE k \<noteq> 0 \<longrightarrow>
            RtlDispatchException_while k l m =
              Some (RtlRaiseException
                      (EXCEPTION_RECORD (STATUS_NONCONTINUABLE_EXCEPTION k)
                         (EXCEPTION_NONCONTINUABLE k) (Some (ExceptionRecord' m3)) None 0),
                    l3, m3)) \<and>
         (ExceptionFlags (ExceptionRecord' m3) AND EXCEPTION_NONCONTINUABLE k = 0 \<longrightarrow>
            RtlDispatchException_while k l m = Some (Return True, l3, m3))"
  using assms
  by (auto intro!: RtlDispatchException_while_exit
      simp: RtlDispatchException_body_def RtlDispatchException_switch_def)

theorem RtlDispatchException_continue_execution_witness:
  "RtlDispatchException_while i386 (example_locals\<lparr>RegistrationPointer := 0x9020\<rparr>)
     noncontinuable_machine =
     Some (RtlRaiseException
             (EXCEPTION_RECORD (STATUS_NONCONTINUABLE_EXCEPTION i386) (EXCEPTION_NONCONTINUABLE i386)
                (Some (ExceptionRecord' noncontinuable_machine)) None 0),
           example_locals\<lparr>RegistrationPointer := 0x9020\<rparr>, noncontinuable_machine) \<and>
   RtlDispatchException_while i386 (example_locals\<lparr>RegistrationPointer := 0x9020\<rparr>)
     example_machine =
     Some (Return True, example_locals\<lparr>RegistrationPointer := 0x9020\<rparr>, example_machine)"
proof -
  let ?l = "example_locals\<lparr>RegistrationPointer := 0x9020\<rparr>"
  have a: "RegistrationPointer ?l \<noteq> EXCEPTION_CHAIN_END i386" by (simp add: i386_def)
  have b: "\<not> frame_out_of_limits i386 ?l"
    by (simp add: frame_out_of_limits_def example_locals_def i386_def HighAddress_def)
  have c1: "RtlIsValidHandler noncontinuable_machine
              (Handler (Registration noncontinuable_machine (RegistrationPointer ?l))) = Some True"
    using example_handler_valid by (simp add: noncontinuable_machine_def) (simp add: ex_defs)
  have c2: "RtlIsValidHandler example_machine
              (Handler (Registration example_machine (RegistrationPointer ?l))) = Some True"
    using example_handler_valid[of "ExceptionRecord' example_machine"] by (simp add: ex_defs)
  have d1: "log_handler i386 ?l noncontinuable_machine = (?l, noncontinuable_machine)"
    by (simp add: log_handler_def ex_defs)
  have d2: "log_handler i386 ?l example_machine = (?l, example_machine)"
    by (simp add: log_handler_def ex_defs)
  have e1: "RtlpExecuteHandlerForException i386 (RegistrationPointer ?l)
              (Handler (Registration noncontinuable_machine (RegistrationPointer ?l)))
              noncontinuable_machine = Some (ExceptionContinueExecution, noncontinuable_machine)"
    by (simp add: ex_defs)
  have e2: "RtlpExecuteHandlerForException i386 (RegistrationPointer ?l)
              (Handler (Registration example_machine (RegistrationPointer ?l)))
              example_machine = Some (ExceptionContinueExecution, example_machine)"
    by (simp add: ex_defs)
  have f1: "end_nested_context i386 ?l
              (log_disposition i386 ExceptionContinueExecution ?l noncontinuable_machine) =
            (?l, noncontinuable_machine)"
    by (simp add: end_nested_context_def log_disposition_def ex_defs)
  have f2: "end_nested_context i386 ?l
              (log_disposition i386 ExceptionContinueExecution ?l example_machine) =
            (?l, example_machine)"
    by (simp add: end_nested_context_def log_disposition_def ex_defs)
  have g1: "ExceptionFlags (ExceptionRecord' noncontinuable_machine) AND
              EXCEPTION_NONCONTINUABLE i386 \<noteq> 0"
    by (simp add: ex_defs)
  have g2: "ExceptionFlags (ExceptionRecord' example_machine) AND
              EXCEPTION_NONCONTINUABLE i386 = 0"
    by (simp add: ex_defs)
  from RtlDispatchException_continue_execution[OF a b c1 d1 e1 f1]
       RtlDispatchException_continue_execution[OF a b c2 d2 e2 f2] g1 g2
  show ?thesis by blast
qed

subsection \<open>The switch to the DPC stack happens once\<close>

lemma log_handler_keeps:
  "log_handler k l m = (l1, m1) \<Longrightarrow>
   HighLimit l1 = HighLimit l \<and> LowLimit l1 = LowLimit l \<and>
   RegistrationPointer l1 = RegistrationPointer l \<and>
   KeGetCurrentPrcb m1 = KeGetCurrentPrcb m"
  by (auto simp: log_handler_def split: if_splits)

lemma end_nested_context_keeps:
  "end_nested_context k l m = (l1, m1) \<Longrightarrow>
   HighLimit l1 = HighLimit l \<and> LowLimit l1 = LowLimit l \<and>
   KeGetCurrentPrcb m1 = KeGetCurrentPrcb m"
  by (auto simp: end_nested_context_def split: if_splits)

lemma log_disposition_keeps:
  "KeGetCurrentPrcb (log_disposition k d l m) = KeGetCurrentPrcb m"
  by (simp add: log_disposition_def)

lemma RtlDispatchException_switch_keeps:
  "RtlDispatchException_switch k d l m = Iterate (l1, m1) \<Longrightarrow>
   HighLimit l1 = HighLimit l \<and> LowLimit l1 = LowLimit l \<and>
   KeGetCurrentPrcb m1 = KeGetCurrentPrcb m"
  by (auto simp: RtlDispatchException_switch_def next_registration_def Let_def
      split: EXCEPTION_DISPOSITION.splits if_splits)

lemma switch_on_dpc_limits: "on_dpc_limits k (switch_to_dpc_stack k l m) m"
  by (simp add: on_dpc_limits_def switch_to_dpc_stack_def Let_def)

lemma on_dpc_limits_no_switch:
  "on_dpc_limits k l m \<Longrightarrow> frame_out_of_limits k l \<Longrightarrow> \<not> frame_on_dpc_stack k l m"
  by (auto simp: on_dpc_limits_def frame_out_of_limits_def frame_on_dpc_stack_def Let_def)

lemma dispatch_next_on_dpc_limits:
  assumes p: "\<forall>f h m d m'. RtlpExecuteHandlerForException k f h m = Some (d, m') \<longrightarrow>
            DpcStack (KeGetCurrentPrcb m') = DpcStack (KeGetCurrentPrcb m)"
    and n: "dispatch_next k (l, m) (l', m')"
    and i: "on_dpc_limits k l m"
  shows "on_dpc_limits k l' m'"
proof (cases "frame_out_of_limits k l")
  case True
  with n have "l' = switch_to_dpc_stack k l m \<and> m' = m"
    by (auto simp: dispatch_next_def RtlDispatchException_body_def split: if_splits)
  then show ?thesis by (simp add: switch_on_dpc_limits)
next
  case False
  obtain l1 m1 where lh: "log_handler k l m = (l1, m1)" by (cases "log_handler k l m")
  from n False lh obtain d m2 where
    ex: "RtlpExecuteHandlerForException k (RegistrationPointer l1)
           (Handler (Registration m1 (RegistrationPointer l1))) m1 = Some (d, m2)"
    by (auto simp: dispatch_next_def RtlDispatchException_body_def
        split: if_splits option.splits bool.splits)
  obtain l3 m3 where en: "end_nested_context k l1 (log_disposition k d l1 m2) = (l3, m3)"
    by (cases "end_nested_context k l1 (log_disposition k d l1 m2)")
  from n False lh ex en have sw: "RtlDispatchException_switch k d l3 m3 = Iterate (l', m')"
    by (auto simp: dispatch_next_def RtlDispatchException_body_def
        split: if_splits option.splits bool.splits)
  from p ex have "DpcStack (KeGetCurrentPrcb m2) = DpcStack (KeGetCurrentPrcb m1)" by blast
  with log_handler_keeps[OF lh] end_nested_context_keeps[OF en]
    RtlDispatchException_switch_keeps[OF sw] i
  show ?thesis by (simp add: on_dpc_limits_def log_disposition_keeps)
qed

lemma dispatch_reach_on_dpc_limits:
  assumes p: "\<forall>f h m d m'. RtlpExecuteHandlerForException k f h m = Some (d, m') \<longrightarrow>
            DpcStack (KeGetCurrentPrcb m') = DpcStack (KeGetCurrentPrcb m)"
    and r: "rtranclp (dispatch_next k) s s'"
    and i: "on_dpc_limits k (fst s) (snd s)"
  shows "on_dpc_limits k (fst s') (snd s')"
  using r i
proof (induction rule: rtranclp_induct)
  case base
  then show ?case .
next
  case (step y z)
  from dispatch_next_on_dpc_limits[OF p, of "fst y" "snd y" "fst z" "snd z"] step
  show ?case by simp
qed

lemma RtlUnwind_switch_keeps:
  assumes "\<forall>p m. DpcStack (KeGetCurrentPrcb (RtlpUnlinkHandler k p m)) =
             DpcStack (KeGetCurrentPrcb m)"
    and "RtlUnwind_switch k d l m = Iterate (l1, m1)"
  shows "HighLimit l1 = HighLimit l \<and> LowLimit l1 = LowLimit l \<and>
         DpcStack (KeGetCurrentPrcb m1) = DpcStack (KeGetCurrentPrcb m)"
  using assms
  by (auto simp: RtlUnwind_switch_def RtlUnwind_step_def Let_def
      split: EXCEPTION_DISPOSITION.splits)

lemma unwind_next_on_dpc_limits:
  assumes p: "\<forall>f h m d m'. RtlpExecuteHandlerForUnwind k f h m = Some (d, m') \<longrightarrow>
            DpcStack (KeGetCurrentPrcb m') = DpcStack (KeGetCurrentPrcb m)"
    and q: "\<forall>p m. DpcStack (KeGetCurrentPrcb (RtlpUnlinkHandler k p m)) =
             DpcStack (KeGetCurrentPrcb m)"
    and n: "unwind_next k T (l, m) (l', m')"
    and i: "on_dpc_limits k l m"
  shows "on_dpc_limits k l' m'"
proof (cases "frame_out_of_limits k l")
  case True
  with n have "l' = switch_to_dpc_stack k l m \<and> m' = m"
    by (auto simp: unwind_next_def RtlUnwind_body_def split: if_splits)
  then show ?thesis by (simp add: switch_on_dpc_limits)
next
  case False
  from n False obtain d m1 where
    ex: "RtlpExecuteHandlerForUnwind k (RegistrationPointer l)
           (Handler (Registration m (RegistrationPointer l))) m = Some (d, m1)"
    and sw: "RtlUnwind_switch k d l m1 = Iterate (l', m')"
    by (auto simp: unwind_next_def RtlUnwind_body_def split: if_splits option.splits)
  from p ex have "DpcStack (KeGetCurrentPrcb m1) = DpcStack (KeGetCurrentPrcb m)" by blast
  with RtlUnwind_switch_keeps[OF q sw] i
  show ?thesis by (simp add: on_dpc_limits_def)
qed

lemma unwind_reach_on_dpc_limits:
  assumes p: "\<forall>f h m d m'. RtlpExecuteHandlerForUnwind k f h m = Some (d, m') \<longrightarrow>
            DpcStack (KeGetCurrentPrcb m') = DpcStack (KeGetCurrentPrcb m)"
    and q: "\<forall>p m. DpcStack (KeGetCurrentPrcb (RtlpUnlinkHandler k p m)) =
             DpcStack (KeGetCurrentPrcb m)"
    and r: "rtranclp (unwind_next k T) s s'"
    and i: "on_dpc_limits k (fst s) (snd s)"
  shows "on_dpc_limits k (fst s') (snd s')"
  using r i
proof (induction rule: rtranclp_induct)
  case base
  then show ?case .
next
  case (step y z)
  from unwind_next_on_dpc_limits[OF p q, of T "fst y" "snd y" "fst z" "snd z"] step
  show ?case by simp
qed

text \<open>
  Claim C7, as the code has it. The code keeps no record of a switch: it reads the
  \<open>DpcStack\<close> field of the processor control block again on every iteration. Provided
  that the handlers and the unlink routine leave that field as it is, the limits are
  replaced by those of the DPC stack at most once within one call of the dispatcher or
  of the unwind. An iteration that starts at a frame out of limits and comes back to the
  loop test is the switch. From then on, after any number of further iterations, a frame
  that fails the test of the limits takes the error path: the dispatcher sets the
  stack-invalid flag and returns \<open>FALSE\<close>, the unwind (for a frame that gets past the
  target tests) raises \<open>STATUS_BAD_STACK\<close>.
\<close>

theorem dpc_stack_switch_once:
  assumes pe: "\<forall>f h m d m'. RtlpExecuteHandlerForException k f h m = Some (d, m') \<longrightarrow>
            DpcStack (KeGetCurrentPrcb m') = DpcStack (KeGetCurrentPrcb m)"
    and pu: "\<forall>f h m d m'. RtlpExecuteHandlerForUnwind k f h m = Some (d, m') \<longrightarrow>
            DpcStack (KeGetCurrentPrcb m') = DpcStack (KeGetCurrentPrcb m)"
    and q: "\<forall>p m. DpcStack (KeGetCurrentPrcb (RtlpUnlinkHandler k p m)) =
             DpcStack (KeGetCurrentPrcb m)"
  shows "(frame_out_of_limits k l0 \<and> dispatch_next k (l0, m0) s1 \<and>
          rtranclp (dispatch_next k) s1 (l, m) \<and> frame_out_of_limits k l \<longrightarrow>
            s1 = (switch_to_dpc_stack k l0 m0, m0) \<and>
            RtlDispatchException_body k l m =
              Some (Exit (Return False) (l, set_stack_invalid k m))) \<and>
         (frame_out_of_limits k u0 \<and> unwind_next k TargetFrame (u0, n0) t1 \<and>
          rtranclp (unwind_next k TargetFrame) t1 (u, n) \<and> frame_out_of_limits k u \<and>
          RegistrationPointer u \<noteq> TargetFrame \<and>
          \<not> (ARGUMENT_PRESENT TargetFrame \<and> TargetFrame < RegistrationPointer u) \<longrightarrow>
            t1 = (switch_to_dpc_stack k u0 n0, n0) \<and>
            RtlUnwind_body k TargetFrame u n =
              Some (Exit (RtlRaiseException (ExceptionRecord2 k (STATUS_BAD_STACK k) n))
                      (u, n)))"
proof (intro conjI impI)
  assume a: "frame_out_of_limits k l0 \<and> dispatch_next k (l0, m0) s1 \<and>
          rtranclp (dispatch_next k) s1 (l, m) \<and> frame_out_of_limits k l"
  then show s1: "s1 = (switch_to_dpc_stack k l0 m0, m0)"
    by (auto simp: dispatch_next_def RtlDispatchException_body_def split: if_splits)
  from a have "rtranclp (dispatch_next k) s1 (l, m)" by simp
  from dispatch_reach_on_dpc_limits[OF pe this] s1
  have "on_dpc_limits k l m" by (simp add: switch_on_dpc_limits)
  with a have "\<not> frame_on_dpc_stack k l m" by (simp add: on_dpc_limits_no_switch)
  with a show "RtlDispatchException_body k l m =
              Some (Exit (Return False) (l, set_stack_invalid k m))"
    by (simp add: RtlDispatchException_body_def)
next
  assume a: "frame_out_of_limits k u0 \<and> unwind_next k TargetFrame (u0, n0) t1 \<and>
          rtranclp (unwind_next k TargetFrame) t1 (u, n) \<and> frame_out_of_limits k u \<and>
          RegistrationPointer u \<noteq> TargetFrame \<and>
          \<not> (ARGUMENT_PRESENT TargetFrame \<and> TargetFrame < RegistrationPointer u)"
  then show t1: "t1 = (switch_to_dpc_stack k u0 n0, n0)"
    by (auto simp: unwind_next_def RtlUnwind_body_def split: if_splits)
  from a have "rtranclp (unwind_next k TargetFrame) t1 (u, n)" by simp
  from unwind_reach_on_dpc_limits[OF pu q this] t1
  have "on_dpc_limits k u n" by (simp add: switch_on_dpc_limits)
  with a have "\<not> frame_on_dpc_stack k u n" by (simp add: on_dpc_limits_no_switch)
  with a show "RtlUnwind_body k TargetFrame u n =
              Some (Exit (RtlRaiseException (ExceptionRecord2 k (STATUS_BAD_STACK k) n))
                      (u, n))"
    by (auto simp: RtlUnwind_body_def)
qed

lemma example_handler_keeps_DpcStack:
  "\<forall>f h m d m'. example_handler f h m = Some (d, m') \<longrightarrow>
     DpcStack (KeGetCurrentPrcb m') = DpcStack (KeGetCurrentPrcb m)"
  by (auto simp: example_handler_def split: if_splits)

lemma dpc_search_handler_valid: "RtlIsValidHandler dpc_machine 0x401000 = Some True"
  by (simp add: RtlIsValidHandler_def RtlIsValidHandler_while.simps LONG_def dpc_machine_def
        example_machine_def example_memory_def)

theorem dpc_stack_switch_once_witness:
  "frame_out_of_limits i386 (example_locals\<lparr>RegistrationPointer := 0x1F000\<rparr>) \<and>
   dispatch_next i386 (example_locals\<lparr>RegistrationPointer := 0x1F000\<rparr>, dpc_machine)
     (dpc_locals 0x1F000, dpc_machine) \<and>
   dispatch_next i386 (dpc_locals 0x1F000, dpc_machine) (dpc_locals 0x9000, dpc_machine) \<and>
   frame_out_of_limits i386 (dpc_locals 0x9000) \<and>
   RtlDispatchException_body i386 (dpc_locals 0x9000) dpc_machine =
     Some (Exit (Return False) (dpc_locals 0x9000, set_stack_invalid i386 dpc_machine)) \<and>
   frame_out_of_limits i386 (example_walk\<lparr>RegistrationPointer := 0x1F000\<rparr>) \<and>
   unwind_next i386 0 (example_walk\<lparr>RegistrationPointer := 0x1F000\<rparr>, dpc_machine)
     (dpc_walk 0x1F000, dpc_machine) \<and>
   unwind_next i386 0 (dpc_walk 0x1F000, dpc_machine)
     (dpc_walk 0x9000, dpc_machine\<lparr>RtlpGetRegistrationHead := 0x9000\<rparr>) \<and>
   frame_out_of_limits i386 (dpc_walk 0x9000) \<and>
   RtlUnwind_body i386 0 (dpc_walk 0x9000) (dpc_machine\<lparr>RtlpGetRegistrationHead := 0x9000\<rparr>) =
     Some (Exit (RtlRaiseException
                   (ExceptionRecord2 i386 (STATUS_BAD_STACK i386)
                      (dpc_machine\<lparr>RtlpGetRegistrationHead := 0x9000\<rparr>)))
             (dpc_walk 0x9000, dpc_machine\<lparr>RtlpGetRegistrationHead := 0x9000\<rparr>))"
proof -
  have pe: "\<forall>f h m d m'. RtlpExecuteHandlerForException i386 f h m = Some (d, m') \<longrightarrow>
            DpcStack (KeGetCurrentPrcb m') = DpcStack (KeGetCurrentPrcb m)"
    using example_handler_keeps_DpcStack by (simp add: i386_def)
  have pu: "\<forall>f h m d m'. RtlpExecuteHandlerForUnwind i386 f h m = Some (d, m') \<longrightarrow>
            DpcStack (KeGetCurrentPrcb m') = DpcStack (KeGetCurrentPrcb m)"
    using example_handler_keeps_DpcStack by (simp add: i386_def)
  have q: "\<forall>p m. DpcStack (KeGetCurrentPrcb (RtlpUnlinkHandler i386 p m)) =
             DpcStack (KeGetCurrentPrcb m)"
    by (simp add: i386_def)
  have o0: "frame_out_of_limits i386 (example_locals\<lparr>RegistrationPointer := 0x1F000\<rparr>)"
    by (simp add: frame_out_of_limits_def HighAddress_def ex_defs)
  have d0: "dispatch_next i386 (example_locals\<lparr>RegistrationPointer := 0x1F000\<rparr>, dpc_machine)
     (dpc_locals 0x1F000, dpc_machine)"
    by (simp add: dispatch_next_def RtlDispatchException_body_def frame_out_of_limits_def
          frame_on_dpc_stack_def switch_to_dpc_stack_def HighAddress_def Let_def ex_defs dpc_defs)
  have i1: "\<not> frame_out_of_limits i386 (dpc_locals 0x1F000)"
    by (simp add: frame_out_of_limits_def HighAddress_def ex_defs dpc_defs)
  have v1: "RtlIsValidHandler dpc_machine
              (Handler (Registration dpc_machine (RegistrationPointer (dpc_locals 0x1F000)))) =
            Some True"
    using dpc_search_handler_valid by (simp add: dpc_locals_def) (simp add: dpc_machine_def dpc_chain_def)
  have d1: "dispatch_next i386 (dpc_locals 0x1F000, dpc_machine) (dpc_locals 0x9000, dpc_machine)"
    using i1 v1
    by (simp add: dispatch_next_def RtlDispatchException_body_def)
       (simp add: log_handler_def log_disposition_def end_nested_context_def
          RtlDispatchException_switch_def next_registration_def ex_defs dpc_defs)
  have o1: "frame_out_of_limits i386 (dpc_locals 0x9000)"
    by (simp add: frame_out_of_limits_def HighAddress_def ex_defs dpc_defs)
  have p0: "frame_out_of_limits i386 (example_walk\<lparr>RegistrationPointer := 0x1F000\<rparr>)"
    by (simp add: frame_out_of_limits_def HighAddress_def ex_defs)
  have u0: "unwind_next i386 0 (example_walk\<lparr>RegistrationPointer := 0x1F000\<rparr>, dpc_machine)
     (dpc_walk 0x1F000, dpc_machine)"
    by (simp add: unwind_next_def RtlUnwind_body_def frame_out_of_limits_def
          frame_on_dpc_stack_def switch_to_dpc_stack_def HighAddress_def Let_def
          ARGUMENT_PRESENT_def ex_defs dpc_defs)
  have u1: "unwind_next i386 0 (dpc_walk 0x1F000, dpc_machine)
     (dpc_walk 0x9000, dpc_machine\<lparr>RtlpGetRegistrationHead := 0x9000\<rparr>)"
    by (simp add: unwind_next_def RtlUnwind_body_def frame_out_of_limits_def
          RtlUnwind_switch_def RtlUnwind_step_def HighAddress_def Let_def
          ARGUMENT_PRESENT_def ex_defs dpc_defs)
  have p1: "frame_out_of_limits i386 (dpc_walk 0x9000)"
    by (simp add: frame_out_of_limits_def HighAddress_def ex_defs dpc_defs)
  have t: "RegistrationPointer (dpc_walk 0x9000) \<noteq> 0 \<and>
           \<not> (ARGUMENT_PRESENT 0 \<and> 0 < RegistrationPointer (dpc_walk 0x9000))"
    by (simp add: dpc_walk_def ARGUMENT_PRESENT_def)
  from d1 have r1: "rtranclp (dispatch_next i386) (dpc_locals 0x1F000, dpc_machine)
                      (dpc_locals 0x9000, dpc_machine)" by (rule r_into_rtranclp)
  from u1 have r2: "rtranclp (unwind_next i386 0) (dpc_walk 0x1F000, dpc_machine)
                      (dpc_walk 0x9000, dpc_machine\<lparr>RtlpGetRegistrationHead := 0x9000\<rparr>)"
    by (rule r_into_rtranclp)
  note w = dpc_stack_switch_once[OF pe pu q,
      of "example_locals\<lparr>RegistrationPointer := 0x1F000\<rparr>" dpc_machine
         "(dpc_locals 0x1F000, dpc_machine)" "dpc_locals 0x9000" dpc_machine
         "example_walk\<lparr>RegistrationPointer := 0x1F000\<rparr>" 0 dpc_machine
         "(dpc_walk 0x1F000, dpc_machine)" "dpc_walk 0x9000"
         "dpc_machine\<lparr>RtlpGetRegistrationHead := 0x9000\<rparr>"]
  from w o0 d0 r1 o1 p0 u0 r2 p1 t d1 u1 show ?thesis by blast
qed

text \<open>
  Claim C7 as stated, with no condition on the handlers, fails. The chain is
  \<open>0x1F000\<close>, \<open>0x2F000\<close>; the limits are switched to the DPC stack below \<open>0x20000\<close> for
  the first frame; its handler leaves the top of the DPC stack at \<open>0x30000\<close>; the second
  frame fails the test of the limits and the limits are switched again, to the region
  below \<open>0x30000\<close>, in the dispatcher and in the unwind. The error path is not taken.
\<close>

theorem dpc_stack_switch_twice_counterexample:
  "frame_out_of_limits i386_moving (example_locals\<lparr>RegistrationPointer := 0x1F000\<rparr>) \<and>
   dispatch_next i386_moving
     (example_locals\<lparr>RegistrationPointer := 0x1F000\<rparr>, moving_machine)
     (dpc_locals 0x1F000, moving_machine) \<and>
   dispatch_next i386_moving (dpc_locals 0x1F000, moving_machine)
     (dpc_locals 0x2F000, moved_machine) \<and>
   frame_out_of_limits i386_moving (dpc_locals 0x2F000) \<and>
   dispatch_next i386_moving (dpc_locals 0x2F000, moved_machine)
     ((dpc_locals 0x2F000)\<lparr>HighLimit := 0x30000, LowLimit := 0x2D000\<rparr>, moved_machine) \<and>
   RtlDispatchException_body i386_moving (dpc_locals 0x2F000) moved_machine \<noteq>
     Some (Exit (Return False)
       (dpc_locals 0x2F000, set_stack_invalid i386_moving moved_machine)) \<and>
   frame_out_of_limits i386_moving (example_walk\<lparr>RegistrationPointer := 0x1F000\<rparr>) \<and>
   unwind_next i386_moving 0
     (example_walk\<lparr>RegistrationPointer := 0x1F000\<rparr>, moving_machine)
     (dpc_walk 0x1F000, moving_machine) \<and>
   unwind_next i386_moving 0 (dpc_walk 0x1F000, moving_machine)
     (dpc_walk 0x2F000, moved_machine\<lparr>RtlpGetRegistrationHead := 0x2F000\<rparr>) \<and>
   frame_out_of_limits i386_moving (dpc_walk 0x2F000) \<and>
   unwind_next i386_moving 0
     (dpc_walk 0x2F000, moved_machine\<lparr>RtlpGetRegistrationHead := 0x2F000\<rparr>)
     ((dpc_walk 0x2F000)\<lparr>HighLimit := 0x30000, LowLimit := 0x2D000\<rparr>,
      moved_machine\<lparr>RtlpGetRegistrationHead := 0x2F000\<rparr>) \<and>
   RtlUnwind_body i386_moving 0 (dpc_walk 0x2F000)
     (moved_machine\<lparr>RtlpGetRegistrationHead := 0x2F000\<rparr>) \<noteq>
     Some (Exit (RtlRaiseException
                   (ExceptionRecord2 i386_moving (STATUS_BAD_STACK i386_moving)
                      (moved_machine\<lparr>RtlpGetRegistrationHead := 0x2F000\<rparr>)))
             (dpc_walk 0x2F000, moved_machine\<lparr>RtlpGetRegistrationHead := 0x2F000\<rparr>))"
proof -
  have o0: "frame_out_of_limits i386_moving (example_locals\<lparr>RegistrationPointer := 0x1F000\<rparr>)"
    by (simp add: frame_out_of_limits_def HighAddress_def ex_defs moving_defs)
  have d0: "dispatch_next i386_moving
     (example_locals\<lparr>RegistrationPointer := 0x1F000\<rparr>, moving_machine)
     (dpc_locals 0x1F000, moving_machine)"
    by (simp add: dispatch_next_def RtlDispatchException_body_def frame_out_of_limits_def
          frame_on_dpc_stack_def switch_to_dpc_stack_def HighAddress_def Let_def ex_defs
          dpc_defs moving_defs)
  have d1: "dispatch_next i386_moving (dpc_locals 0x1F000, moving_machine)
     (dpc_locals 0x2F000, moved_machine)"
    by (simp add: dispatch_next_def RtlDispatchException_body_def frame_out_of_limits_def
          HighAddress_def RtlIsValidHandler_def log_handler_def log_disposition_def
          end_nested_context_def RtlDispatchException_switch_def next_registration_def
          ex_defs dpc_defs moving_defs)
  have o1: "frame_out_of_limits i386_moving (dpc_locals 0x2F000)"
    by (simp add: frame_out_of_limits_def HighAddress_def ex_defs dpc_defs moving_defs)
  have b2: "RtlDispatchException_body i386_moving (dpc_locals 0x2F000) moved_machine =
     Some (Iterate ((dpc_locals 0x2F000)\<lparr>HighLimit := 0x30000, LowLimit := 0x2D000\<rparr>,
                    moved_machine))"
    by (simp add: RtlDispatchException_body_def frame_out_of_limits_def
          frame_on_dpc_stack_def switch_to_dpc_stack_def HighAddress_def Let_def ex_defs
          dpc_defs moving_defs)
  have d2: "dispatch_next i386_moving (dpc_locals 0x2F000, moved_machine)
     ((dpc_locals 0x2F000)\<lparr>HighLimit := 0x30000, LowLimit := 0x2D000\<rparr>, moved_machine)"
    using b2 by (simp add: dispatch_next_def) (simp add: dpc_defs ex_defs moving_defs)
  have p0: "frame_out_of_limits i386_moving (example_walk\<lparr>RegistrationPointer := 0x1F000\<rparr>)"
    by (simp add: frame_out_of_limits_def HighAddress_def ex_defs moving_defs)
  have u0: "unwind_next i386_moving 0
     (example_walk\<lparr>RegistrationPointer := 0x1F000\<rparr>, moving_machine)
     (dpc_walk 0x1F000, moving_machine)"
    by (simp add: unwind_next_def RtlUnwind_body_def frame_out_of_limits_def
          frame_on_dpc_stack_def switch_to_dpc_stack_def HighAddress_def Let_def
          ARGUMENT_PRESENT_def ex_defs dpc_defs moving_defs)
  have u1: "unwind_next i386_moving 0 (dpc_walk 0x1F000, moving_machine)
     (dpc_walk 0x2F000, moved_machine\<lparr>RtlpGetRegistrationHead := 0x2F000\<rparr>)"
    by (simp add: unwind_next_def RtlUnwind_body_def frame_out_of_limits_def
          RtlUnwind_switch_def RtlUnwind_step_def HighAddress_def Let_def
          ARGUMENT_PRESENT_def ex_defs dpc_defs moving_defs)
  have p1: "frame_out_of_limits i386_moving (dpc_walk 0x2F000)"
    by (simp add: frame_out_of_limits_def HighAddress_def ex_defs dpc_defs moving_defs)
  have c2: "RtlUnwind_body i386_moving 0 (dpc_walk 0x2F000)
              (moved_machine\<lparr>RtlpGetRegistrationHead := 0x2F000\<rparr>) =
     Some (Iterate ((dpc_walk 0x2F000)\<lparr>HighLimit := 0x30000, LowLimit := 0x2D000\<rparr>,
                    moved_machine\<lparr>RtlpGetRegistrationHead := 0x2F000\<rparr>))"
    by (simp add: RtlUnwind_body_def frame_out_of_limits_def
          frame_on_dpc_stack_def switch_to_dpc_stack_def HighAddress_def Let_def
          ARGUMENT_PRESENT_def ex_defs dpc_defs moving_defs)
  have u2: "unwind_next i386_moving 0
     (dpc_walk 0x2F000, moved_machine\<lparr>RtlpGetRegistrationHead := 0x2F000\<rparr>)
     ((dpc_walk 0x2F000)\<lparr>HighLimit := 0x30000, LowLimit := 0x2D000\<rparr>,
      moved_machine\<lparr>RtlpGetRegistrationHead := 0x2F000\<rparr>)"
    using c2 by (simp add: unwind_next_def) (simp add: dpc_defs ex_defs moving_defs)
  from o0 d0 d1 o1 d2 b2 p0 u0 u1 p1 u2 c2 show ?thesis by simp
qed

subsection \<open>Which frames switch to the DPC stack\<close>

text \<open>
  Claim C8, as the code has it. A frame fails the test of the limits while the interrupt
  level is at or above dispatch level, a DPC routine is active, the end of the frame is
  at or below the top of the DPC stack and its start at or above the top less
  \<open>KERNEL_STACK_SIZE\<close>. If the frame is 4-byte aligned, the limits are replaced by that
  region and the iteration starts again with the same registration pointer and the same
  state, in the dispatcher and (for a frame that gets past the target tests) in the
  unwind. If the frame is not aligned there is no switch: the dispatcher sets the
  stack-invalid flag and returns \<open>FALSE\<close>, the unwind raises \<open>STATUS_BAD_STACK\<close>.
\<close>

theorem dpc_stack_switch_aligned:
  assumes "frame_out_of_limits k l"
    and "KeGetCurrentIrql m \<ge> DISPATCH_LEVEL k"
    and "DpcRoutineActive (KeGetCurrentPrcb m)"
    and "HighAddress k (RegistrationPointer l) \<le> DpcStack (KeGetCurrentPrcb m)"
    and "RegistrationPointer l \<ge> DpcStack (KeGetCurrentPrcb m) - KERNEL_STACK_SIZE k"
    and "RegistrationPointer u = RegistrationPointer l"
    and "LowLimit u = LowLimit l" and "HighLimit u = HighLimit l"
    and "RegistrationPointer u \<noteq> TargetFrame"
    and "\<not> (ARGUMENT_PRESENT TargetFrame \<and> TargetFrame < RegistrationPointer u)"
  shows "(RegistrationPointer l AND 3 = 0 \<longrightarrow>
            RtlDispatchException_body k l m =
              Some (Iterate
                (l\<lparr>HighLimit := DpcStack (KeGetCurrentPrcb m),
                   LowLimit := DpcStack (KeGetCurrentPrcb m) - KERNEL_STACK_SIZE k\<rparr>, m)) \<and>
            RtlUnwind_body k TargetFrame u m =
              Some (Iterate
                (u\<lparr>HighLimit := DpcStack (KeGetCurrentPrcb m),
                   LowLimit := DpcStack (KeGetCurrentPrcb m) - KERNEL_STACK_SIZE k\<rparr>, m))) \<and>
         (RegistrationPointer l AND 3 \<noteq> 0 \<longrightarrow>
            RtlDispatchException_body k l m =
              Some (Exit (Return False) (l, set_stack_invalid k m)) \<and>
            RtlUnwind_body k TargetFrame u m =
              Some (Exit (RtlRaiseException (ExceptionRecord2 k (STATUS_BAD_STACK k) m))
                      (u, m)))"
proof -
  from assms(1,6,7,8) have ou: "frame_out_of_limits k u"
    by (simp add: frame_out_of_limits_def)
  have al: "RegistrationPointer l AND 3 = 0 \<Longrightarrow>
            frame_on_dpc_stack k l m \<and> frame_on_dpc_stack k u m"
    using assms by (simp add: frame_on_dpc_stack_def Let_def)
  have un: "RegistrationPointer l AND 3 \<noteq> 0 \<Longrightarrow>
            \<not> frame_on_dpc_stack k l m \<and> \<not> frame_on_dpc_stack k u m"
    using assms by (simp add: frame_on_dpc_stack_def Let_def)
  show ?thesis
    using assms(1,9,10) ou al un
    by (auto simp: RtlDispatchException_body_def RtlUnwind_body_def switch_to_dpc_stack_def
          Let_def)
qed

theorem dpc_stack_switch_aligned_witness:
  "RtlDispatchException_body i386 (example_locals\<lparr>RegistrationPointer := 0x1F000\<rparr>) dpc_machine =
     Some (Iterate (dpc_locals 0x1F000, dpc_machine)) \<and>
   RtlUnwind_body i386 0 (example_walk\<lparr>RegistrationPointer := 0x1F000\<rparr>) dpc_machine =
     Some (Iterate (dpc_walk 0x1F000, dpc_machine)) \<and>
   RtlDispatchException_body i386 (example_locals\<lparr>RegistrationPointer := 0x1F002\<rparr>) dpc_machine =
     Some (Exit (Return False)
       (example_locals\<lparr>RegistrationPointer := 0x1F002\<rparr>, set_stack_invalid i386 dpc_machine)) \<and>
   RtlUnwind_body i386 0 (example_walk\<lparr>RegistrationPointer := 0x1F002\<rparr>) dpc_machine =
     Some (Exit (RtlRaiseException (ExceptionRecord2 i386 (STATUS_BAD_STACK i386) dpc_machine))
       (example_walk\<lparr>RegistrationPointer := 0x1F002\<rparr>, dpc_machine))"
proof -
  have h: "frame_out_of_limits i386 (example_locals\<lparr>RegistrationPointer := a\<rparr>)"
    "KeGetCurrentIrql dpc_machine \<ge> DISPATCH_LEVEL i386"
    "DpcRoutineActive (KeGetCurrentPrcb dpc_machine)"
    "HighAddress i386 (RegistrationPointer (example_locals\<lparr>RegistrationPointer := a\<rparr>)) \<le>
       DpcStack (KeGetCurrentPrcb dpc_machine)"
    "RegistrationPointer (example_locals\<lparr>RegistrationPointer := a\<rparr>) \<ge>
       DpcStack (KeGetCurrentPrcb dpc_machine) - KERNEL_STACK_SIZE i386"
    "RegistrationPointer (example_walk\<lparr>RegistrationPointer := a\<rparr>) =
       RegistrationPointer (example_locals\<lparr>RegistrationPointer := a\<rparr>)"
    "LowLimit (example_walk\<lparr>RegistrationPointer := a\<rparr>) =
       LowLimit (example_locals\<lparr>RegistrationPointer := a\<rparr>)"
    "HighLimit (example_walk\<lparr>RegistrationPointer := a\<rparr>) =
       HighLimit (example_locals\<lparr>RegistrationPointer := a\<rparr>)"
    "RegistrationPointer (example_walk\<lparr>RegistrationPointer := a\<rparr>) \<noteq> 0"
    "\<not> (ARGUMENT_PRESENT 0 \<and> 0 < RegistrationPointer (example_walk\<lparr>RegistrationPointer := a\<rparr>))"
    if "a = 0x1F000 \<or> a = 0x1F002" for a
    using that
    by (auto simp: frame_out_of_limits_def HighAddress_def ARGUMENT_PRESENT_def ex_defs dpc_defs)
  have a0: "RegistrationPointer (example_locals\<lparr>RegistrationPointer := 0x1F000\<rparr>) AND 3 = 0"
    by simp
  have a2: "RegistrationPointer (example_locals\<lparr>RegistrationPointer := 0x1F002\<rparr>) AND 3 \<noteq> 0"
    by simp
  have e: "example_locals\<lparr>RegistrationPointer := 0x1F000,
             HighLimit := DpcStack (KeGetCurrentPrcb dpc_machine),
             LowLimit := DpcStack (KeGetCurrentPrcb dpc_machine) - KERNEL_STACK_SIZE i386\<rparr> =
           dpc_locals 0x1F000"
    "example_walk\<lparr>RegistrationPointer := 0x1F000,
             HighLimit := DpcStack (KeGetCurrentPrcb dpc_machine),
             LowLimit := DpcStack (KeGetCurrentPrcb dpc_machine) - KERNEL_STACK_SIZE i386\<rparr> =
           dpc_walk 0x1F000"
    by (simp_all add: dpc_defs i386_def)
  note h0 = h[of "0x1F000", OF disjI1[OF refl]]
  note h2 = h[of "0x1F002", OF disjI2[OF refl]]
  from dpc_stack_switch_aligned[OF h0, THEN conjunct1, THEN mp, OF a0]
       dpc_stack_switch_aligned[OF h2, THEN conjunct2, THEN mp, OF a2] e
  show ?thesis by simp
qed

text \<open>
  Claim C8 as stated fails at the frame \<open>0x1F002\<close>: it lies within the DPC stack, the
  interrupt level is dispatch level and a DPC routine is active, but it is not aligned.
  With the limits of the thread it fails the bounds and the alignment, with the limits
  of the DPC stack only the alignment; either way the dispatcher returns \<open>FALSE\<close> and
  the unwind raises, and the limits are not replaced.
\<close>

theorem dpc_stack_switch_unaligned_counterexample:
  "frame_out_of_limits i386 (example_locals\<lparr>RegistrationPointer := 0x1F002\<rparr>) \<and>
   KeGetCurrentIrql dpc_machine \<ge> DISPATCH_LEVEL i386 \<and>
   DpcRoutineActive (KeGetCurrentPrcb dpc_machine) \<and>
   HighAddress i386 0x1F002 \<le> DpcStack (KeGetCurrentPrcb dpc_machine) \<and>
   0x1F002 \<ge> DpcStack (KeGetCurrentPrcb dpc_machine) - KERNEL_STACK_SIZE i386 \<and>
   RtlDispatchException_body i386 (example_locals\<lparr>RegistrationPointer := 0x1F002\<rparr>) dpc_machine =
     Some (Exit (Return False)
       (example_locals\<lparr>RegistrationPointer := 0x1F002\<rparr>, set_stack_invalid i386 dpc_machine)) \<and>
   RtlDispatchException_body i386 (example_locals\<lparr>RegistrationPointer := 0x1F002\<rparr>) dpc_machine \<noteq>
     Some (Iterate
       (switch_to_dpc_stack i386 (example_locals\<lparr>RegistrationPointer := 0x1F002\<rparr>) dpc_machine,
        dpc_machine)) \<and>
   frame_out_of_limits i386 (dpc_locals 0x1F002) \<and>
   LowLimit (dpc_locals 0x1F002) \<le> 0x1F002 \<and>
   HighAddress i386 0x1F002 \<le> HighLimit (dpc_locals 0x1F002) \<and>
   RtlDispatchException_body i386 (dpc_locals 0x1F002) dpc_machine =
     Some (Exit (Return False) (dpc_locals 0x1F002, set_stack_invalid i386 dpc_machine)) \<and>
   RtlUnwind_body i386 0 (dpc_walk 0x1F002) dpc_machine =
     Some (Exit (RtlRaiseException (ExceptionRecord2 i386 (STATUS_BAD_STACK i386) dpc_machine))
       (dpc_walk 0x1F002, dpc_machine))"
  by (simp add: RtlDispatchException_body_def RtlUnwind_body_def frame_out_of_limits_def
        frame_on_dpc_stack_def HighAddress_def ARGUMENT_PRESENT_def Let_def ex_defs dpc_defs)

subsection \<open>The end of the chain in the unwind\<close>

lemma RtlUnwind_body_not_Return:
  "RtlUnwind_body k TargetFrame l m = Some (Exit c s) \<Longrightarrow> c \<noteq> Return b"
  by (auto simp: RtlUnwind_body_def RtlUnwind_switch_def RtlUnwind_step_def Let_def
      split: if_splits option.splits prod.splits EXCEPTION_DISPOSITION.splits)

lemma unwind_next_while:
  "unwind_next k TargetFrame s s' \<Longrightarrow>
   RtlUnwind_while k TargetFrame (fst s) (snd s) =
   RtlUnwind_while k TargetFrame (fst s') (snd s')"
  by (cases s') (simp add: unwind_next_def RtlUnwind_while_iterate)

lemma unwind_reach_while:
  "rtranclp (unwind_next k TargetFrame) s s' \<Longrightarrow>
   RtlUnwind_while k TargetFrame (fst s) (snd s) =
   RtlUnwind_while k TargetFrame (fst s') (snd s')"
  by (induction rule: rtranclp_induct) (auto dest: unwind_next_while)

text \<open>
  Claim C9. The unwind is called and its loop, after any number of iterations, comes to
  the test with the registration pointer at \<open>EXCEPTION_CHAIN_END\<close>, in state \<open>m\<close>. Then
  the call ends in \<open>ZwContinue\<close> with the context record when the target frame is
  \<open>EXCEPTION_CHAIN_END\<close>, and in \<open>ZwRaiseException\<close> with the working exception record and
  the context record otherwise, neither alertable nor first chance; the call does not
  return to its caller.
\<close>

theorem RtlUnwind_chain_exhausted:
  assumes "rtranclp (unwind_next k TargetFrame)
             (RtlUnwind_setup k TargetFrame ExceptionRecord1 ReturnValue ReturnAddress m0) (l, m)"
    and "RegistrationPointer l = EXCEPTION_CHAIN_END k"
  shows "RtlUnwind k TargetFrame TargetIp ExceptionRecord1 ReturnValue ReturnAddress m0 =
           Some (if TargetFrame = EXCEPTION_CHAIN_END k
                 then ZwContinue (ContextRecord' m) False
                 else ZwRaiseException (ExceptionRecord' m) (ContextRecord' m) False, m) \<and>
         (\<forall>b m'. RtlUnwind k TargetFrame TargetIp ExceptionRecord1 ReturnValue ReturnAddress m0 \<noteq>
                 Some (Return b, m'))"
proof -
  obtain l0 m1 where
    s: "RtlUnwind_setup k TargetFrame ExceptionRecord1 ReturnValue ReturnAddress m0 = (l0, m1)"
    by (cases "RtlUnwind_setup k TargetFrame ExceptionRecord1 ReturnValue ReturnAddress m0")
  from unwind_reach_while[OF assms(1)] s
  have "RtlUnwind_while k TargetFrame l0 m1 = RtlUnwind_while k TargetFrame l m" by simp
  also from assms(2) have "\<dots> = Some (RtlUnwind_end k TargetFrame m, l, m)"
    by (subst RtlUnwind_while.simps) simp
  finally have w:
    "RtlUnwind_while k TargetFrame l0 m1 = Some (RtlUnwind_end k TargetFrame m, l, m)" .
  show ?thesis using w s by (auto simp: RtlUnwind_def RtlUnwind_end_def)
qed

lemma setup_unwind_all:
  "RtlUnwind_setup i386 0xFFFFFFFF None 7 0x401300 search_machine =
     (example_walk, unwinding_machine 2 0x9000)"
  by (simp add: RtlUnwind_setup_def ex_defs unwinding_machine_def ARGUMENT_PRESENT_def
      ExceptionFlags_update_def Let_def)

lemma setup_exit_unwind:
  "RtlUnwind_setup i386 0 None 7 0x401300 search_machine =
     (example_walk, unwinding_machine 6 0x9000)"
  by (simp add: RtlUnwind_setup_def ex_defs unwinding_machine_def ARGUMENT_PRESENT_def
      ExceptionFlags_update_def Let_def)

lemma search_step:
  assumes "a = 0x9000 \<and> b = 0x9010 \<or> a = 0x9010 \<and> b = 0x9020 \<or>
           a = 0x9020 \<and> b = 0xFFFFFFFF"
    and "T = 0 \<or> T = 0xFFFFFFFF"
  shows "unwind_next i386 T
           (example_walk\<lparr>RegistrationPointer := a\<rparr>, unwinding_machine f a)
           (example_walk\<lparr>RegistrationPointer := b\<rparr>, unwinding_machine f b)"
  using assms
  by (auto simp: unwind_next_def RtlUnwind_body_def RtlUnwind_switch_def RtlUnwind_step_def
        frame_out_of_limits_def HighAddress_def ARGUMENT_PRESENT_def Let_def ex_defs
        unwinding_machine_def)

lemma search_walk:
  assumes "T = 0 \<or> T = 0xFFFFFFFF"
  shows "rtranclp (unwind_next i386 T) (example_walk, unwinding_machine f 0x9000)
     (example_walk\<lparr>RegistrationPointer := 0xFFFFFFFF\<rparr>, unwinding_machine f 0xFFFFFFFF)"
proof -
  have e: "example_walk = example_walk\<lparr>RegistrationPointer := 0x9000\<rparr>"
    by (simp add: example_walk_def)
  have 1: "unwind_next i386 T (example_walk, unwinding_machine f 0x9000)
             (example_walk\<lparr>RegistrationPointer := 0x9010\<rparr>, unwinding_machine f 0x9010)"
    using search_step[of "0x9000" "0x9010" T f] assms e by simp
  have 2: "unwind_next i386 T
             (example_walk\<lparr>RegistrationPointer := 0x9010\<rparr>, unwinding_machine f 0x9010)
             (example_walk\<lparr>RegistrationPointer := 0x9020\<rparr>, unwinding_machine f 0x9020)"
    using search_step[of "0x9010" "0x9020" T f] assms by simp
  have 3: "unwind_next i386 T
             (example_walk\<lparr>RegistrationPointer := 0x9020\<rparr>, unwinding_machine f 0x9020)
             (example_walk\<lparr>RegistrationPointer := 0xFFFFFFFF\<rparr>,
              unwinding_machine f 0xFFFFFFFF)"
    using search_step[of "0x9020" "0xFFFFFFFF" T f] assms by simp
  from 1 2 3 show ?thesis by (meson rtranclp.rtrancl_into_rtrancl rtranclp.rtrancl_refl)
qed

theorem RtlUnwind_chain_exhausted_witness:
  "RtlUnwind i386 0xFFFFFFFF 0 None 7 0x401300 search_machine =
     Some (ZwContinue (ContextRecord' (unwinding_machine 2 0xFFFFFFFF)) False,
           unwinding_machine 2 0xFFFFFFFF) \<and>
   RtlUnwind i386 0 0 None 7 0x401300 search_machine =
     Some (ZwRaiseException (ExceptionRecord' (unwinding_machine 6 0xFFFFFFFF))
             (ContextRecord' (unwinding_machine 6 0xFFFFFFFF)) False,
           unwinding_machine 6 0xFFFFFFFF) \<and>
   Esp (ContextRecord' (unwinding_machine 2 0xFFFFFFFF)) =
     Esp (ContextRecord' search_machine) + 16 \<and>
   Eax (ContextRecord' (unwinding_machine 2 0xFFFFFFFF)) = 7"
proof -
  have e: "RegistrationPointer (example_walk\<lparr>RegistrationPointer := 0xFFFFFFFF\<rparr>) =
           EXCEPTION_CHAIN_END i386"
    by (simp add: i386_def)
  have c: "EXCEPTION_CHAIN_END i386 = 0xFFFFFFFF" by (simp add: i386_def)
  have w1: "rtranclp (unwind_next i386 0xFFFFFFFF)
              (RtlUnwind_setup i386 0xFFFFFFFF None 7 0x401300 search_machine)
              (example_walk\<lparr>RegistrationPointer := 0xFFFFFFFF\<rparr>,
               unwinding_machine 2 0xFFFFFFFF)"
    using search_walk[of "0xFFFFFFFF" 2] by (simp add: setup_unwind_all)
  have w2: "rtranclp (unwind_next i386 0)
              (RtlUnwind_setup i386 0 None 7 0x401300 search_machine)
              (example_walk\<lparr>RegistrationPointer := 0xFFFFFFFF\<rparr>,
               unwinding_machine 6 0xFFFFFFFF)"
    using search_walk[of 0 6] by (simp add: setup_exit_unwind)
  have r: "Esp (ContextRecord' (unwinding_machine 2 0xFFFFFFFF)) =
             Esp (ContextRecord' search_machine) + 16 \<and>
           Eax (ContextRecord' (unwinding_machine 2 0xFFFFFFFF)) = 7"
    by (simp add: unwinding_machine_def ex_defs)
  from RtlUnwind_chain_exhausted[OF w1 e, of 0] RtlUnwind_chain_exhausted[OF w2 e, of 0] c r
  show ?thesis by simp
qed

subsection \<open>No validation of handlers in the unwind\<close>

text \<open>
  Claim C10. A frame passes the target tests and the limits, and \<open>RtlIsValidHandler\<close>
  reports its handler invalid. The unwind runs the handler all the same: its iteration
  is the \<open>switch\<close> on the disposition the handler returned, in the state the handler
  left. The dispatcher at the same frame, within the same limits, runs nothing: it
  returns \<open>FALSE\<close> with the stack-invalid flag put into the exception record and the
  state otherwise untouched.
\<close>

theorem RtlUnwind_no_handler_validation:
  assumes "RegistrationPointer l \<noteq> EXCEPTION_CHAIN_END k"
    and "RegistrationPointer l \<noteq> TargetFrame"
    and "\<not> (ARGUMENT_PRESENT TargetFrame \<and> TargetFrame < RegistrationPointer l)"
    and "\<not> frame_out_of_limits k l"
    and "RtlIsValidHandler m (Handler (Registration m (RegistrationPointer l))) = Some False"
    and "RtlpExecuteHandlerForUnwind k (RegistrationPointer l)
           (Handler (Registration m (RegistrationPointer l))) m = Some (Disposition, m1)"
    and "RegistrationPointer ld = RegistrationPointer l"
    and "LowLimit ld = LowLimit l" and "HighLimit ld = HighLimit l"
  shows "RtlUnwind_body k TargetFrame l m = Some (RtlUnwind_switch k Disposition l m1) \<and>
         RtlDispatchException_while k ld m = Some (Return False, ld, set_stack_invalid k m) \<and>
         ExceptionFlags (ExceptionRecord' (set_stack_invalid k m)) AND
           EXCEPTION_STACK_INVALID k = EXCEPTION_STACK_INVALID k"
proof -
  from assms(4,7,8,9) have "\<not> frame_out_of_limits k ld"
    by (simp add: frame_out_of_limits_def)
  with assms show ?thesis
    by (auto intro!: RtlDispatchException_while_exit
        simp: RtlUnwind_body_def RtlDispatchException_body_def set_stack_invalid_def
          ExceptionFlags_update_def word_ao_absorbs)
qed

theorem RtlUnwind_no_handler_validation_witness:
  "RtlIsValidHandler collided_machine
     (Handler (Registration collided_machine (RegistrationPointer example_walk))) = Some False \<and>
   RtlUnwind_body i386 0 example_walk collided_machine =
     Some (RtlUnwind_switch i386 ExceptionCollidedUnwind example_walk
             (collided_machine\<lparr>DispatcherContext_RegistrationPointer := 0x9010\<rparr>)) \<and>
   RtlDispatchException_while i386 example_locals collided_machine =
     Some (Return False, example_locals, set_stack_invalid i386 collided_machine)"
proof -
  have e: "RtlIsValidHandler collided_machine
     (Handler (Registration collided_machine (RegistrationPointer example_walk))) = Some False"
    by (simp add: RtlIsValidHandler_def RtlIsValidHandler_while.simps LONG_def ex_defs)
  have g: "RegistrationPointer example_locals = RegistrationPointer example_walk"
    "LowLimit example_locals = LowLimit example_walk"
    "HighLimit example_locals = HighLimit example_walk"
    by (simp_all add: example_locals_def example_walk_def)
  from RtlUnwind_no_handler_validation
         [OF example_walk_not_end exit_unwind_no_target example_walk_in_limits e
             collided_handler g] e
  show ?thesis by simp
qed

end
